theory Spec2Isabelle
  imports Complex_Main
begin

section \<open>Python values\<close>

text \<open>
  A Python \<^verbatim>\<open>str\<close> is a sequence of code points, and \<^verbatim>\<open>len\<close>, slicing and \<^verbatim>\<open>find\<close>
  count code points. A text is therefore a list of code point numbers; \<open>asc\<close> writes an
  ASCII literal. A code point may be a lone surrogate (U+D800 to U+DFFF): a \<^verbatim>\<open>str\<close> can
  hold one, and UTF-8 cannot encode it.
\<close>

type_synonym pystr = "nat list"

definition asc :: "string \<Rightarrow> pystr" where
  "asc s = map of_char s"

text \<open>
  \<^verbatim>\<open>Exception\<close> and its subclasses: the class name and \<^verbatim>\<open>str(e)\<close>. Every
  \<^verbatim>\<open>except Exception\<close> of the program catches all of them.
\<close>

datatype exn = Exn (exc_class: string) (exc_str: pystr)

text \<open>
  The values of \<^verbatim>\<open>project_data: Dict[str, Any]\<close>: a \<^verbatim>\<open>str\<close>, or any other object,
  kept as the text that formatting it in an f-string gives.
\<close>

datatype pyval = Str pystr | NonStr pystr

fun fmt :: "pyval \<Rightarrow> pystr" where
  "fmt (Str s) = s"
| "fmt (NonStr s) = s"

type_synonym pydict = "pystr \<rightharpoonup> pyval"

definition dict_get :: "pydict \<Rightarrow> pystr \<Rightarrow> pyval \<Rightarrow> pyval" where
  "dict_get d k dflt = (case d k of None \<Rightarrow> dflt | Some v \<Rightarrow> v)"

text \<open>What \<^verbatim>\<open>json.loads\<close> returns.\<close>

datatype json =
    JNull
  | JBool bool
  | JInt int
  | JFloat real
  | JStr pystr
  | JList "json list"
  | JDict "(pystr \<times> json) list"

section \<open>String operations of Python used by the program\<close>

text \<open>\<^verbatim>\<open>str.isspace\<close> for one character, the set that \<^verbatim>\<open>str.strip()\<close> removes.\<close>

definition py_isspace :: "nat \<Rightarrow> bool" where
  "py_isspace c =
     ((9 \<le> c \<and> c \<le> 13) \<or> (28 \<le> c \<and> c \<le> 32) \<or> c = 133 \<or> c = 160 \<or> c = 5760
      \<or> (8192 \<le> c \<and> c \<le> 8202) \<or> c = 8232 \<or> c = 8233 \<or> c = 8239 \<or> c = 8287
      \<or> c = 12288)"

definition py_strip :: "pystr \<Rightarrow> pystr" where
  "py_strip s = rev (dropWhile py_isspace (rev (dropWhile py_isspace s)))"

text \<open>The lowest index at which \<open>sub\<close> occurs in \<open>s\<close>.\<close>

fun first_occurrence :: "'a list \<Rightarrow> 'a list \<Rightarrow> nat option" where
  "first_occurrence sub [] = (if sub = [] then Some 0 else None)"
| "first_occurrence sub (c # cs) =
     (if take (length sub) (c # cs) = sub then Some 0
      else map_option Suc (first_occurrence sub cs))"

definition last_occurrence :: "'a list \<Rightarrow> 'a list \<Rightarrow> nat option" where
  "last_occurrence sub s =
     (case first_occurrence (rev sub) (rev s) of
        None \<Rightarrow> None
      | Some j \<Rightarrow> Some (length s - length sub - j))"

text \<open>An index argument of a slice or of \<^verbatim>\<open>find\<close>: negative counts from the end, then clamped.\<close>

definition clamp_index :: "nat \<Rightarrow> int \<Rightarrow> nat" where
  "clamp_index n i = (if i < 0 then nat (int n + i) else min (nat i) n)"

text \<open>\<^verbatim>\<open>s.find(sub)\<close>, \<^verbatim>\<open>s.find(sub, start)\<close> and \<^verbatim>\<open>s.rfind(sub)\<close>: -1 when there is none.\<close>

definition py_find :: "'a list \<Rightarrow> 'a list \<Rightarrow> int" where
  "py_find s sub = (case first_occurrence sub s of None \<Rightarrow> -1 | Some i \<Rightarrow> int i)"

definition py_find_from :: "'a list \<Rightarrow> 'a list \<Rightarrow> int \<Rightarrow> int" where
  "py_find_from s sub start =
     (if int (length s) < start then -1
      else let k = clamp_index (length s) start in
        (case first_occurrence sub (drop k s) of None \<Rightarrow> -1 | Some i \<Rightarrow> int (k + i)))"

definition py_rfind :: "'a list \<Rightarrow> 'a list \<Rightarrow> int" where
  "py_rfind s sub = (case last_occurrence sub s of None \<Rightarrow> -1 | Some i \<Rightarrow> int i)"

text \<open>\<^verbatim>\<open>sub in s\<close>.\<close>

definition py_in :: "'a list \<Rightarrow> 'a list \<Rightarrow> bool" where
  "py_in sub s = (first_occurrence sub s \<noteq> None)"

text \<open>\<^verbatim>\<open>s[a:b]\<close>.\<close>

definition py_slice :: "'a list \<Rightarrow> int \<Rightarrow> int \<Rightarrow> 'a list" where
  "py_slice s a b =
     (let lo = clamp_index (length s) a; hi = clamp_index (length s) b
      in take (hi - lo) (drop lo s))"

text \<open>
  \<^verbatim>\<open>s.replace(old, new)\<close> for a non-empty \<open>old\<close>, the only use the program makes of it;
  with an empty \<open>old\<close> the text is returned as it is.
\<close>

function py_replace :: "'a list \<Rightarrow> 'a list \<Rightarrow> 'a list \<Rightarrow> 'a list" where
  "py_replace [] old new = []"
| "py_replace (c # cs) old new =
     (if old \<noteq> [] \<and> take (length old) (c # cs) = old
      then new @ py_replace (drop (length old) (c # cs)) old new
      else c # py_replace cs old new)"
  by pat_completeness auto
termination
  by (relation "measure (\<lambda>(s, old, new). length s)") (auto simp: Suc_le_eq)

text \<open>\<^verbatim>\<open>sep.join(parts)\<close>.\<close>

fun py_join :: "'a list \<Rightarrow> 'a list list \<Rightarrow> 'a list" where
  "py_join sep [] = []"
| "py_join sep [p] = p"
| "py_join sep (p # q # ps) = p @ sep @ py_join sep (q # ps)"

text \<open>\<^verbatim>\<open>str(n)\<close> for an integer, as an f-string prints it.\<close>

fun str_of_nat :: "nat \<Rightarrow> pystr" where
  "str_of_nat n =
     (if n < 10 then [48 + n] else str_of_nat (n div 10) @ [48 + n mod 10])"

declare str_of_nat.simps [simp del]

definition str_of_int :: "int \<Rightarrow> pystr" where
  "str_of_int i = (if i < 0 then 45 # str_of_nat (nat (- i)) else str_of_nat (nat i))"

section \<open>Data model\<close>

text \<open>The pydantic models of the program. A field typed \<^verbatim>\<open>float\<close> holds a real number.\<close>

record SearchQueries =
  english_query :: pystr
  bangla_query :: pystr

record SearchResult =
  title :: pystr
  link :: pystr
  description :: pystr
  position :: int

record SearchResults =
  organic_results :: "SearchResult list"
  total_results :: int
  search_query :: pystr
  language :: pystr

record ContentExtraction =
  url :: pystr
  title :: pystr
  content :: pystr
  extraction_success :: bool
  error_message :: "pystr option"

record OppositionAnalysis =
  has_opposition_evidence :: bool
  opposition_types :: "pystr list"
  summary :: pystr
  confidence_score :: real
  sources :: "pystr list"

text \<open>The dictionary that \<^verbatim>\<open>analyze_project\<close> returns: a full report, or the error report.\<close>

datatype report =
    Report (project_id: pyval) (project_name: pyval) (analysis: OppositionAnalysis)
      (total_urls_found: nat) (content_extracted: nat)
  | ErrorReport (project_id: pyval) (project_name: pyval) (error: pystr)

section \<open>The outside world\<close>

text \<open>
  What \<^verbatim>\<open>requests\<close> returns: the status, the body (\<^verbatim>\<open>response.text\<close>) and what
  \<^verbatim>\<open>response.json()\<close> gives or raises.
\<close>

record http_response =
  status_code :: int
  resp_text :: pystr
  resp_json :: "exn + json"

text \<open>
  A result block \<^verbatim>\<open>div.tF2Cxc\<close> of the parsed page, as far as the program reads it:
  \<^verbatim>\<open>element.find('a', href=True)\<close> with its \<^verbatim>\<open>href\<close>, the text of its \<^verbatim>\<open>h3\<close> if it
  has one and its own text; the stripped texts of \<^verbatim>\<open>element.find_all('span')\<close>; and
  \<^verbatim>\<open>element.get_text(strip=True)\<close>.
\<close>

record anchor =
  href :: pystr
  h3_text :: "pystr option"
  anchor_text :: pystr

record block =
  main_link :: "anchor option"
  span_texts :: "pystr list"
  all_text :: pystr

text \<open>The four output directories and a file in one of them.\<close>

datatype dir = search_dir | content_dir | result_dir | summary_dir

type_synonym path = "dir \<times> pystr"

text \<open>
  The \<^verbatim>\<open>data\<close> handed to \<^verbatim>\<open>save_data\<close>, and what a file holds: a text, the dump of
  a value, or, after \<^verbatim>\<open>open(path, 'w')\<close> has emptied it and the write then raised, some
  part of what was to be written, possibly nothing (\<open>Truncated\<close>).
\<close>

datatype saved =
    SavedQueries SearchQueries
  | SavedResults SearchResults SearchResults SearchResults
  | SavedContent "ContentExtraction list"
  | SavedAnalysis OppositionAnalysis

datatype stored = MdText pystr | JsonDump saved | Truncated

text \<open>
  Every call that leaves the program is a field of the world, and returns a value or
  raises (\<open>Inl\<close>):
  \<^item> \<open>generate_content\<close>: \<^verbatim>\<open>client.models.generate_content(model=..., contents=prompt).text\<close>,
    which is \<^verbatim>\<open>None\<close> for a reply without text;
  \<^item> \<open>json_loads\<close>: \<^verbatim>\<open>json.loads\<close>; a dictionary is the list of its items;
  \<^item> \<open>validate_analysis\<close>: \<^verbatim>\<open>OppositionAnalysis(**analysis_data)\<close>, pydantic's coercion
    of the five fields (booleans, numbers and lists from their JSON forms);
  \<^item> \<open>post_request\<close>: \<^verbatim>\<open>requests.post\<close> to the search proxy for a search URL; the
    language tag is not sent, it only tells the two calls of a project apart;
  \<^item> \<open>html_select\<close>: \<^verbatim>\<open>BeautifulSoup(body, 'html.parser').select('div.tF2Cxc')\<close>;
  \<^item> \<open>str_lower\<close>: \<^verbatim>\<open>str.lower\<close>;
  \<^item> \<open>jina_get\<close>: \<^verbatim>\<open>requests.get\<close> of the reader proxy, for the loop index and URL
    (the same URL may be fetched twice, with different answers);
  \<^item> \<open>partition_url\<close>: \<^verbatim>\<open>partition(url=...)\<close>, the \<^verbatim>\<open>text\<close> of each element;
  \<^item> \<open>group_broken_paragraphs\<close>: the cleaner of \<^verbatim>\<open>unstructured\<close>;
  \<^item> \<open>write_md\<close>: \<^verbatim>\<open>open(path, 'w')\<close> and writing a text to the file, \<open>None\<close> when
    both succeed;
  \<^item> \<open>dump_json\<close>: \<^verbatim>\<open>open(path, 'w')\<close> and \<^verbatim>\<open>json.dump\<close> of the data into the file;
  \<^item> \<open>write_md_opened\<close>, \<open>dump_json_opened\<close>: for a write that raises, whether
    \<^verbatim>\<open>open(path, 'w')\<close> had succeeded, and so had emptied the file, before the exception.
  Logging and \<^verbatim>\<open>time.sleep(2)\<close> change no result and are left out.
\<close>

record world =
  generate_content :: "pystr \<Rightarrow> exn + pystr option"
  json_loads :: "pystr \<Rightarrow> exn + json"
  validate_analysis :: "json \<Rightarrow> exn + OppositionAnalysis"
  post_request :: "pystr \<Rightarrow> pystr \<Rightarrow> exn + http_response"
  html_select :: "pystr \<Rightarrow> exn + block list"
  str_lower :: "pystr \<Rightarrow> pystr"
  jina_get :: "nat \<Rightarrow> pystr \<Rightarrow> exn + http_response"
  partition_url :: "nat \<Rightarrow> pystr \<Rightarrow> exn + pystr list"
  group_broken_paragraphs :: "pystr \<Rightarrow> exn + pystr"
  write_md :: "path \<Rightarrow> pystr \<Rightarrow> exn option"
  dump_json :: "path \<Rightarrow> saved \<Rightarrow> exn option"
  write_md_opened :: "path \<Rightarrow> pystr \<Rightarrow> bool"
  dump_json_opened :: "path \<Rightarrow> saved \<Rightarrow> bool"

text \<open>
  What the program changes: the files of the output directories, and the prompts sent to
  the generative model, in order.
\<close>

record state =
  files :: "path \<rightharpoonup> stored"
  prompts :: "pystr list"

section \<open>Reading JSON out of a model reply\<close>

text \<open>
  Lines 128 to 140 of \<^verbatim>\<open>generate_search_queries\<close> and 428 to 438 of
  \<^verbatim>\<open>analyze_opposition\<close>: the same two tests and slices, and a last branch that differs
  (\<open>manual\<close>), which in \<^verbatim>\<open>generate_search_queries\<close> can raise.
\<close>

definition extract_json_text :: "pystr \<Rightarrow> (exn + pystr) \<Rightarrow> exn + pystr" where
  "extract_json_text response_text manual =
     (if py_in (asc ''```json'') response_text then
        (let json_start = py_find response_text (asc ''```json'') + 7;
             json_end = py_find_from response_text (asc ''```'') json_start
         in Inr (py_strip (py_slice response_text json_start json_end)))
      else if py_in (asc ''{'') response_text \<and> py_in (asc ''}'') response_text then
        (let json_start = py_find response_text (asc ''{'');
             json_end = py_rfind response_text (asc ''}'') + 1
         in Inr (py_slice response_text json_start json_end))
      else manual)"

text \<open>\<^verbatim>\<open>response.text.strip()\<close> when \<^verbatim>\<open>response.text\<close> is \<^verbatim>\<open>None\<close>.\<close>

definition none_has_no_strip :: exn where
  "none_has_no_strip =
     Exn ''AttributeError''
       ([39] @ asc ''NoneType'' @ [39] @ asc '' object has no attribute '' @ [39] @ asc ''strip'' @ [39])"

section \<open>Query synthesis\<close>

definition project_context :: "pydict \<Rightarrow> pystr" where
  "project_context project_data =
     asc ''\<newline>        Project Name: '' @
     fmt (dict_get project_data (asc ''project_name'') (Str (asc ''Unknown''))) @
     asc ''\<newline>        Location: '' @
     fmt (dict_get project_data (asc ''location'') (Str (asc ''Unknown''))) @
     asc ''\<newline>        Capacity: '' @
     fmt (dict_get project_data (asc ''capacity'') (Str (asc ''Unknown''))) @
     asc ''\<newline>        Agency: '' @
     fmt (dict_get project_data (asc ''agency'') (Str (asc ''Unknown''))) @
     asc ''\<newline>        Status: '' @
     fmt (dict_get project_data (asc ''present_status'') (Str (asc ''Unknown''))) @
     asc ''\<newline>        ''"

definition queries_prompt :: "pydict \<Rightarrow> pystr" where
  \<open>queries_prompt project_data =
     asc ''\<newline>        Based on the following renewable energy project information, generate two simple search queries to find any information about this project:\<newline>\<newline>        '' @
     project_context project_data @
     asc ''\<newline>\<newline>        Generate:\<newline>'' @
     asc ''        1. An English search query with just the project name, location, and conflict - keep it simple and general, NO QUOTES\<newline>'' @
     asc ''        2. A Bangla search query with the project name, location, and conflict in Bangla - keep it simple and general, NO QUOTES\<newline>\<newline>'' @
     asc ''        The queries should be broad enough to find any information about this project including news articles, reports, EIA documents, financial information, PPA details, tariff rates, or any other project-related content. Don't make them too specific. Do not use quotes around any part of the query.\<newline>\<newline>'' @
     asc ''        Return the queries in JSON format with fields "english_query" and "bangla_query".\<newline>        ''\<close>

text \<open>The Bangla word for conflict that ends the second query: five code points.\<close>

definition songhat :: pystr where
  "songhat = [2488, 2434, 2456, 2494, 2468]"

text \<open>
  The last branch, lines 138 to 140: \<^verbatim>\<open>+\<close> on a value that is not a \<^verbatim>\<open>str\<close> raises
  \<^verbatim>\<open>TypeError\<close> (its message names the type; it is only logged).
\<close>

definition manual_queries_json :: "pydict \<Rightarrow> exn + pystr" where
  \<open>manual_queries_json project_data =
     (case (dict_get project_data (asc ''project_name'') (Str (asc ''Unknown'')),
            dict_get project_data (asc ''location'') (Str (asc ''Unknown''))) of
        (Str name, Str location) \<Rightarrow>
          Inr (asc ''{"english_query": "'' @ name @ asc '' '' @ location @
               asc '' conflict", "bangla_query": "'' @ name @ asc '' '' @ location @
               asc '' '' @ songhat @ asc ''"}'')
      | _ \<Rightarrow> Inl (Exn ''TypeError'' (asc ''can only concatenate str to str'')))\<close>

text \<open>
  \<^verbatim>\<open>SearchQueries(**queries_data)\<close>: \<^verbatim>\<open>**\<close> needs a dictionary, both fields are required
  and typed \<^verbatim>\<open>str\<close>, other keys are ignored. The messages are only logged.
\<close>

definition SearchQueries_init :: "json \<Rightarrow> exn + SearchQueries" where
  "SearchQueries_init queries_data =
     (case queries_data of
        JDict items \<Rightarrow>
          (case map_of items (asc ''english_query'') of
             Some (JStr e) \<Rightarrow>
               (case map_of items (asc ''bangla_query'') of
                  Some (JStr b) \<Rightarrow> Inr \<lparr>english_query = e, bangla_query = b\<rparr>
                | _ \<Rightarrow> Inl (Exn ''ValidationError'' (asc ''validation error for SearchQueries'')))
           | _ \<Rightarrow> Inl (Exn ''ValidationError'' (asc ''validation error for SearchQueries'')))
      | _ \<Rightarrow> Inl (Exn ''TypeError'' (asc ''argument after ** must be a mapping'')))"

text \<open>The \<^verbatim>\<open>try\<close> block, lines 119 to 148.\<close>

definition queries_attempt :: "world \<Rightarrow> pydict \<Rightarrow> pystr \<Rightarrow> exn + SearchQueries" where
  "queries_attempt w project_data prompt =
     (case generate_content w prompt of
        Inl e \<Rightarrow> Inl e
      | Inr None \<Rightarrow> Inl none_has_no_strip
      | Inr (Some t) \<Rightarrow>
          (case extract_json_text (py_strip t) (manual_queries_json project_data) of
             Inl e \<Rightarrow> Inl e
           | Inr json_text \<Rightarrow>
               (case json_loads w json_text of
                  Inl e \<Rightarrow> Inl e
                | Inr queries_data \<Rightarrow> SearchQueries_init queries_data)))"

text \<open>The \<^verbatim>\<open>except\<close> block, lines 153 to 158.\<close>

definition fallback_queries :: "pydict \<Rightarrow> SearchQueries" where
  "fallback_queries project_data =
     (let name = fmt (dict_get project_data (asc ''project_name'') (Str (asc ''Unknown'')));
          location = fmt (dict_get project_data (asc ''location'') (Str (asc ''Unknown'')))
      in \<lparr>english_query = name @ asc '' '' @ location @ asc '' conflict'',
          bangla_query = name @ asc '' '' @ location @ asc '' '' @ songhat\<rparr>)"

definition generate_search_queries :: "world \<Rightarrow> pydict \<Rightarrow> state \<Rightarrow> SearchQueries \<times> state" where
  "generate_search_queries w project_data \<sigma> =
     (let prompt = queries_prompt project_data;
          \<sigma>' = \<sigma>\<lparr>prompts := prompts \<sigma> @ [prompt]\<rparr>
      in case queries_attempt w project_data prompt of
           Inr queries \<Rightarrow> (queries, \<sigma>')
         | Inl e \<Rightarrow> (fallback_queries project_data, \<sigma>'))"

section \<open>Search\<close>

text \<open>
  \<^verbatim>\<open>urllib.parse.quote_plus(query)\<close> encodes the text as UTF-8 (\<^verbatim>\<open>errors='strict'\<close>)
  before quoting it, and \<^verbatim>\<open>str.encode\<close> raises \<^verbatim>\<open>UnicodeEncodeError\<close> at the first
  lone surrogate, naming the character and its position, or the positions of a run of them.
  Of the bytes, the ASCII letters and digits and \<^verbatim>\<open>_.-~\<close> stay, a space becomes \<^verbatim>\<open>+\<close>,
  and every other byte becomes \<^verbatim>\<open>%\<close> and its two hexadecimal digits, in upper case.
\<close>

definition is_surrogate :: "nat \<Rightarrow> bool" where
  "is_surrogate c = (55296 \<le> c \<and> c \<le> 57343)"

definition hex_digit :: "nat \<Rightarrow> nat" where
  "hex_digit d = (if d < 10 then 48 + d else 87 + d)"

definition encode_error :: "pystr \<Rightarrow> exn" where
  "encode_error s =
     (let start = length (takeWhile (\<lambda>c. \<not> is_surrogate c) s);
          run = takeWhile is_surrogate (drop start s);
          c = hd run
      in Exn ''UnicodeEncodeError''
           ([39] @ asc ''utf-8'' @ [39] @ asc '' codec can'' @ [39] @ asc ''t encode '' @
            (if length run = 1
             then asc ''character '' @ [39, 92, 117] @
                  [hex_digit (c div 4096), hex_digit (c div 256 mod 16),
                   hex_digit (c div 16 mod 16), hex_digit (c mod 16)] @ [39] @
                  asc '' in position '' @ str_of_nat start
             else asc ''characters in position '' @ str_of_nat start @ asc ''-'' @
                  str_of_nat (start + length run - 1)) @
            asc '': surrogates not allowed''))"

definition utf8_bytes :: "nat \<Rightarrow> nat list" where
  "utf8_bytes c =
     (if c < 128 then [c]
      else if c < 2048 then [192 + c div 64, 128 + c mod 64]
      else if c < 65536 then [224 + c div 4096, 128 + c div 64 mod 64, 128 + c mod 64]
      else [240 + c div 262144, 128 + c div 4096 mod 64, 128 + c div 64 mod 64,
            128 + c mod 64])"

definition always_safe :: "nat \<Rightarrow> bool" where
  "always_safe b =
     ((65 \<le> b \<and> b \<le> 90) \<or> (97 \<le> b \<and> b \<le> 122) \<or> (48 \<le> b \<and> b \<le> 57)
      \<or> b = 95 \<or> b = 46 \<or> b = 45 \<or> b = 126)"

definition upper_hex_digit :: "nat \<Rightarrow> nat" where
  "upper_hex_digit d = (if d < 10 then 48 + d else 55 + d)"

definition quote_byte :: "nat \<Rightarrow> pystr" where
  "quote_byte b =
     (if always_safe b then [b]
      else if b = 32 then [43]
      else [37, upper_hex_digit (b div 16), upper_hex_digit (b mod 16)])"

definition percent_encode :: "pystr \<Rightarrow> pystr" where
  "percent_encode s = concat (map quote_byte (concat (map utf8_bytes s)))"

definition quote_plus :: "pystr \<Rightarrow> exn + pystr" where
  "quote_plus s =
     (if list_ex is_surrogate s then Inl (encode_error s) else Inr (percent_encode s))"

definition nav_words :: "pystr list" where
  "nav_words = [asc ''web'', asc ''images'', asc ''videos'', asc ''news'', asc ''shopping'']"

text \<open>Lines 221 to 227: the first span text that qualifies, or the empty text.\<close>

fun first_snippet :: "world \<Rightarrow> pystr list \<Rightarrow> pystr" where
  "first_snippet w [] = []"
| "first_snippet w (span_text # spans) =
     (if length span_text > 20
         \<and> \<not> list_ex (\<lambda>word. py_in word (str_lower w span_text)) nav_words
      then span_text
      else first_snippet w spans)"

text \<open>
  The body of the loop, lines 204 to 252, for the block at index \<open>i\<close>: the result that
  it appends, or \<open>None\<close> when it appends nothing.
\<close>

definition result_of_block :: "world \<Rightarrow> nat \<Rightarrow> block \<Rightarrow> SearchResult option" where
  "result_of_block w i element =
     (let t = (case main_link element of
                 None \<Rightarrow> []
               | Some a \<Rightarrow> (case h3_text a of Some h \<Rightarrow> h | None \<Rightarrow> anchor_text a));
          l = (case main_link element of None \<Rightarrow> [] | Some a \<Rightarrow> href a);
          d0 = first_snippet w (span_texts element);
          d1 = (if d0 = [] then
                  (if t \<noteq> [] \<and> py_in t (all_text element)
                   then py_strip (py_replace (all_text element) t [])
                   else all_text element)
                else d0);
          d2 = (if d1 \<noteq> [] then
                  py_strip (py_replace
                    (py_replace d1 (asc ''Press/to jump to the search box'') [])
                    (asc ''Accessibility help'') [])
                else d1)
      in if t \<noteq> [] \<or> l \<noteq> []
         then Some \<lparr>SearchResult.title = t, link = l, description = d2, position = int i + 1\<rparr>
         else None)"

text \<open>The loop over \<^verbatim>\<open>enumerate(result_elements[:10])\<close>, from index \<open>i\<close> on.\<close>

fun collect_results ::
  "world \<Rightarrow> nat \<Rightarrow> block list \<Rightarrow> SearchResult list \<Rightarrow> SearchResult list" where
  "collect_results w i [] organic = organic"
| "collect_results w i (element # elements) organic =
     collect_results w (Suc i) elements
       (case result_of_block w i element of
          None \<Rightarrow> organic
        | Some r \<Rightarrow> organic @ [r])"

text \<open>
  Lines 190 to 252. \<^verbatim>\<open>search_data.keys()\<close> raises when the envelope is not a
  dictionary; a dictionary without a text under \<^verbatim>\<open>body\<close> gives no results.
\<close>

definition parse_search_data :: "world \<Rightarrow> json \<Rightarrow> exn + SearchResult list" where
  "parse_search_data w search_data =
     (case search_data of
        JDict items \<Rightarrow>
          (case map_of items (asc ''body'') of
             Some (JStr body) \<Rightarrow>
               (case html_select w body of
                  Inl e \<Rightarrow> Inl e
                | Inr result_elements \<Rightarrow>
                    Inr (collect_results w 0 (take 10 result_elements) []))
           | _ \<Rightarrow> Inr [])
      | _ \<Rightarrow> Inl (Exn ''AttributeError'' (asc ''object has no attribute keys'')))"

definition empty_results :: "pystr \<Rightarrow> pystr \<Rightarrow> SearchResults" where
  "empty_results query lang =
     \<lparr>organic_results = [], total_results = 0, search_query = query, language = lang\<rparr>"

text \<open>
  The \<^verbatim>\<open>try\<close> block of lines 179 to 275, for the search URL. An exception of
  \<^verbatim>\<open>response.json()\<close> is caught by the inner handler when it is a
  \<^verbatim>\<open>JSONDecodeError\<close> and by the outer one otherwise; both return the same value.
\<close>

definition search_request :: "world \<Rightarrow> pystr \<Rightarrow> pystr \<Rightarrow> pystr \<Rightarrow> SearchResults" where
  "search_request w query lang search_url =
     (case post_request w search_url lang of
        Inl e \<Rightarrow> empty_results query lang
      | Inr response \<Rightarrow>
          if status_code response = 200 then
            (case resp_json response of
               Inl e \<Rightarrow> empty_results query lang
             | Inr search_data \<Rightarrow>
                 (case parse_search_data w search_data of
                    Inl e \<Rightarrow> empty_results query lang
                  | Inr organic \<Rightarrow>
                      \<lparr>organic_results = organic, total_results = int (length organic),
                       search_query = query, language = lang\<rparr>))
          else empty_results query lang)"

text \<open>
  Line 170 stands before the \<^verbatim>\<open>try\<close> of line 179: an exception of
  \<^verbatim>\<open>urllib.parse.quote_plus\<close> leaves \<^verbatim>\<open>search_with_brightdata\<close>.
\<close>

definition search_with_brightdata :: "world \<Rightarrow> pystr \<Rightarrow> pystr \<Rightarrow> exn + SearchResults" where
  "search_with_brightdata w query lang =
     (case quote_plus query of
        Inl e \<Rightarrow> Inl e
      | Inr encoded_query \<Rightarrow>
          Inr (search_request w query lang
                 (asc ''https://www.google.com/search?q='' @ encoded_query)))"

section \<open>Content extraction\<close>

text \<open>
  Lines 288 to 315: the reader proxy first; when it raises or answers another status than
  200, the partitioner, whose exception leaves the outer \<^verbatim>\<open>try\<close>.
\<close>

definition fetch_content :: "world \<Rightarrow> nat \<Rightarrow> pystr \<Rightarrow> exn + pystr" where
  "fetch_content w i lnk =
     (let jina_url = asc ''https://r.jina.ai/'' @ lnk;
          primary =
            (case jina_get w i jina_url of
               Inl e \<Rightarrow> Inl e
             | Inr jina_response \<Rightarrow>
                 if status_code jina_response = 200 then Inr (resp_text jina_response)
                 else Inl (Exn ''Exception''
                        (asc ''r.jina.ai returned status '' @ str_of_int (status_code jina_response))))
      in case primary of
           Inr c \<Rightarrow> Inr c
         | Inl jina_error \<Rightarrow>
             (case partition_url w i lnk of
                Inl e \<Rightarrow> Inl e
              | Inr elements \<Rightarrow> Inr (py_join (asc ''\<newline>'') (filter (\<lambda>t. t \<noteq> []) elements))))"

text \<open>Lines 318 to 322: the raw text with the cleaned and clipped one.\<close>

definition clean_content :: "world \<Rightarrow> pystr \<Rightarrow> exn + pystr" where
  "clean_content w c =
     (case group_broken_paragraphs w c of
        Inl e \<Rightarrow> Inl e
      | Inr cleaned_content \<Rightarrow>
          Inr (if length cleaned_content > 15000
               then take 15000 cleaned_content @ asc ''... [Content truncated]''
               else cleaned_content))"

definition md_path :: "pyval \<Rightarrow> nat \<Rightarrow> path" where
  "md_path pid i = (content_dir, fmt pid @ asc ''_'' @ str_of_nat (i + 1) @ asc ''.md'')"

text \<open>
  One turn of the loop, lines 286 to 352, for the result at index \<open>i\<close>: the artifact it
  appends and the files after it. A failed write of the \<^verbatim>\<open>.md\<close> file is only logged;
  it leaves the file untouched when \<^verbatim>\<open>open\<close> raised, and truncated otherwise.
\<close>

definition extract_one ::
  "world \<Rightarrow> pyval \<Rightarrow> nat \<Rightarrow> SearchResult \<Rightarrow> state \<Rightarrow> ContentExtraction \<times> state" where
  "extract_one w pid i result \<sigma> =
     (case fetch_content w i (link result) of
        Inl e \<Rightarrow>
          (\<lparr>url = link result, title = SearchResult.title result, content = [],
            extraction_success = False, error_message = Some (exc_str e)\<rparr>, \<sigma>)
      | Inr c \<Rightarrow>
          (case clean_content w c of
             Inl e \<Rightarrow>
               (\<lparr>url = link result, title = SearchResult.title result, content = [],
                 extraction_success = False, error_message = Some (exc_str e)\<rparr>, \<sigma>)
           | Inr cleaned_content \<Rightarrow>
               (\<lparr>url = link result, title = SearchResult.title result,
                 content = cleaned_content, extraction_success = True, error_message = None\<rparr>,
                (case write_md w (md_path pid i) c of
                   None \<Rightarrow> \<sigma>\<lparr>files := (files \<sigma>)(md_path pid i \<mapsto> MdText c)\<rparr>
                 | Some md_error \<Rightarrow>
                     if write_md_opened w (md_path pid i) c
                     then \<sigma>\<lparr>files := (files \<sigma>)(md_path pid i \<mapsto> Truncated)\<rparr>
                     else \<sigma>))))"

fun extract_loop ::
  "world \<Rightarrow> pyval \<Rightarrow> nat \<Rightarrow> SearchResult list \<Rightarrow> ContentExtraction list \<Rightarrow> state
     \<Rightarrow> ContentExtraction list \<times> state" where
  "extract_loop w pid i [] content_extractions \<sigma> = (content_extractions, \<sigma>)"
| "extract_loop w pid i (result # results) content_extractions \<sigma> =
     (case extract_one w pid i result \<sigma> of
        (c, \<sigma>') \<Rightarrow> extract_loop w pid (Suc i) results (content_extractions @ [c]) \<sigma>')"

definition extract_content_from_urls ::
  "world \<Rightarrow> SearchResults \<Rightarrow> pyval \<Rightarrow> state \<Rightarrow> ContentExtraction list \<times> state" where
  "extract_content_from_urls w search_results pid \<sigma> =
     extract_loop w pid 0 (organic_results search_results) [] \<sigma>"

section \<open>Evidence analysis\<close>

text \<open>The loop of lines 376 to 381.\<close>

fun gather_content ::
  "ContentExtraction list \<Rightarrow> pystr \<Rightarrow> pystr list \<Rightarrow> pystr \<times> pystr list" where
  "gather_content [] all_content sources_with_content = (all_content, sources_with_content)"
| "gather_content (extraction # rest) all_content sources_with_content =
     (if extraction_success extraction \<and> content extraction \<noteq> [] then
        gather_content rest
          (all_content
             @ (asc ''\<newline>\<newline>--- Content from '' @ url extraction @ asc '' ---\<newline>'')
             @ (asc ''Title: '' @ ContentExtraction.title extraction @ asc ''\<newline>'')
             @ (asc ''Content: '' @ content extraction @ asc ''\<newline>''))
          (sources_with_content @ [url extraction])
      else gather_content rest all_content sources_with_content)"

definition analysis_prompt :: "pydict \<Rightarrow> pystr \<Rightarrow> pystr" where
  \<open>analysis_prompt project_data all_content =
     asc ''\<newline>        Analyze the following content for any information related to this renewable energy project, including opposition, conflict, or any other project details:\<newline>\<newline>'' @
     asc ''        PROJECT INFORMATION:\<newline>        '' @
     project_context project_data @
     asc ''\<newline>\<newline>        EXTRACTED CONTENT:\<newline>        '' @
     all_content @
     asc ''\<newline>\<newline>        Please analyze this content and determine:\<newline>'' @
     asc ''        1. Is there evidence of opposition or conflict related to this specific project?\<newline>'' @
     asc ''        2. What types of opposition are mentioned (e.g., land acquisition protests, environmental concerns, farmer protests, etc.)?\<newline>'' @
     asc ''        3. What other project information is available (EIA reports, financial details, tariff rates, PPA information, etc.)?\<newline>'' @
     asc ''        4. Provide a detailed summary of all findings\<newline>'' @
     asc ''        5. Rate your confidence in this analysis (0.0 to 1.0)\<newline>'' @
     asc ''        6. List the specific URLs that contained evidence\<newline>\<newline>'' @
     asc ''        Return your analysis in JSON format with these fields:\<newline>'' @
     asc ''        - has_opposition_evidence: boolean\<newline>'' @
     asc ''        - opposition_types: array of strings\<newline>'' @
     asc ''        - summary: detailed string\<newline>'' @
     asc ''        - confidence_score: number between 0.0 and 1.0\<newline>'' @
     asc ''        - sources: array of URLs that contained evidence\<newline>\<newline>'' @
     asc ''        Be specific about the project name and location when making your analysis. Include any relevant project information found, not just opposition.\<newline>        ''\<close>

text \<open>The verdict of lines 384 to 390, returned before any call of the model.\<close>

definition no_content_verdict :: OppositionAnalysis where
  "no_content_verdict =
     \<lparr>has_opposition_evidence = False, opposition_types = [],
      summary = asc ''No content could be extracted from search results to analyze.'',
      confidence_score = 0, sources = []\<rparr>"

text \<open>The text of line 438, parsed when the reply has neither a fence nor braces.\<close>

definition unparsed_json :: pystr where
  \<open>unparsed_json =
     asc ''{"has_opposition_evidence": false, "opposition_types": [], "summary": "Could not parse analysis results", "confidence_score": 0.0, "sources": []}''\<close>

text \<open>The verdict of the \<^verbatim>\<open>except\<close> block, lines 450 to 456.\<close>

definition error_verdict :: "exn \<Rightarrow> OppositionAnalysis" where
  "error_verdict e =
     \<lparr>has_opposition_evidence = False, opposition_types = [],
      summary = asc ''Error during analysis: '' @ exc_str e,
      confidence_score = 0, sources = []\<rparr>"

text \<open>The \<^verbatim>\<open>try\<close> block, lines 420 to 446.\<close>

definition analysis_attempt :: "world \<Rightarrow> pystr \<Rightarrow> exn + OppositionAnalysis" where
  "analysis_attempt w prompt =
     (case generate_content w prompt of
        Inl e \<Rightarrow> Inl e
      | Inr None \<Rightarrow> Inl none_has_no_strip
      | Inr (Some t) \<Rightarrow>
          (case extract_json_text (py_strip t) (Inr unparsed_json) of
             Inl e \<Rightarrow> Inl e
           | Inr json_text \<Rightarrow>
               (case json_loads w json_text of
                  Inl e \<Rightarrow> Inl e
                | Inr analysis_data \<Rightarrow> validate_analysis w analysis_data)))"

definition analyze_opposition ::
  "world \<Rightarrow> pydict \<Rightarrow> ContentExtraction list \<Rightarrow> state \<Rightarrow> OppositionAnalysis \<times> state" where
  "analyze_opposition w project_data content_extractions \<sigma> =
     (let all_content = fst (gather_content content_extractions [] [])
      in if py_strip all_content = [] then (no_content_verdict, \<sigma>)
         else
           (let prompt = analysis_prompt project_data all_content;
                \<sigma>' = \<sigma>\<lparr>prompts := prompts \<sigma> @ [prompt]\<rparr>
            in case analysis_attempt w prompt of
                 Inr a \<Rightarrow> (a, \<sigma>')
               | Inl e \<Rightarrow> (error_verdict e, \<sigma>')))"

section \<open>Persistence and the pipeline of one project\<close>

text \<open>
  \<^verbatim>\<open>save_data\<close> raises \<^verbatim>\<open>ValueError\<close> for an unknown step and whatever opening the
  file or \<^verbatim>\<open>json.dump\<close> raises (\<open>Some\<close>); the file is then untouched when \<^verbatim>\<open>open\<close>
  raised, and truncated otherwise.
\<close>

definition write_json :: "world \<Rightarrow> path \<Rightarrow> saved \<Rightarrow> state \<Rightarrow> exn option \<times> state" where
  "write_json w file_path data \<sigma> =
     (case dump_json w file_path data of
        None \<Rightarrow> (None, \<sigma>\<lparr>files := (files \<sigma>)(file_path \<mapsto> JsonDump data)\<rparr>)
      | Some e \<Rightarrow>
          (Some e,
           if dump_json_opened w file_path data
           then \<sigma>\<lparr>files := (files \<sigma>)(file_path \<mapsto> Truncated)\<rparr>
           else \<sigma>))"

definition save_data ::
  "world \<Rightarrow> pyval \<Rightarrow> pystr \<Rightarrow> saved \<Rightarrow> state \<Rightarrow> exn option \<times> state" where
  "save_data w pid step data \<sigma> =
     (if step = asc ''search'' then write_json w (search_dir, fmt pid @ asc ''.json'') data \<sigma>
      else if step = asc ''content'' then write_json w (content_dir, fmt pid @ asc ''.json'') data \<sigma>
      else if step = asc ''result'' then write_json w (result_dir, fmt pid @ asc ''.json'') data \<sigma>
      else if step = asc ''summary'' then write_json w (summary_dir, fmt pid @ asc ''.json'') data \<sigma>
      else (Some (Exn ''ValueError'' (asc ''Invalid step: '' @ step)), \<sigma>))"

text \<open>
  Lines 517 to 522 and 526 to 531 build the same combined set, once as a dictionary to
  save and once as a \<^verbatim>\<open>SearchResults\<close>.
\<close>

definition combined_results ::
  "SearchQueries \<Rightarrow> SearchResults \<Rightarrow> SearchResults \<Rightarrow> SearchResults" where
  "combined_results queries english_results bangla_results =
     \<lparr>organic_results = organic_results english_results @ organic_results bangla_results,
      total_results = total_results english_results + total_results bangla_results,
      search_query = asc ''English: '' @ english_query queries @ asc '' | Bangla: ''
                       @ bangla_query queries,
      language = asc ''mixed''\<rparr>"

text \<open>
  The \<^verbatim>\<open>try\<close> block of \<^verbatim>\<open>analyze_project\<close>, lines 490 to 574: first what follows the
  two searches (lines 498 to 574), then the whole block.
\<close>

definition project_steps_found ::
  "world \<Rightarrow> pydict \<Rightarrow> pyval \<Rightarrow> SearchQueries \<Rightarrow> SearchResults \<Rightarrow> SearchResults \<Rightarrow> state
     \<Rightarrow> (exn + report) \<times> state" where
  "project_steps_found w project_data pid queries english_results bangla_results \<sigma>2 =
     (let all_results = combined_results queries english_results bangla_results
      in (case save_data w pid (asc ''result'')
                 (SavedResults english_results bangla_results all_results) \<sigma>2 of
            (Some e, \<sigma>3) \<Rightarrow> (Inl e, \<sigma>3)
          | (None, \<sigma>3) \<Rightarrow>
              (case extract_content_from_urls w all_results pid \<sigma>3 of
                 (content_extractions, \<sigma>4) \<Rightarrow>
                   (case save_data w pid (asc ''content'')
                           (SavedContent content_extractions) \<sigma>4 of
                      (Some e, \<sigma>5) \<Rightarrow> (Inl e, \<sigma>5)
                    | (None, \<sigma>5) \<Rightarrow>
                        (case analyze_opposition w project_data content_extractions \<sigma>5 of
                           (a, \<sigma>6) \<Rightarrow>
                             (case save_data w pid (asc ''summary'') (SavedAnalysis a) \<sigma>6 of
                                (Some e, \<sigma>7) \<Rightarrow> (Inl e, \<sigma>7)
                              | (None, \<sigma>7) \<Rightarrow>
                                  (Inr (Report pid
                                          (dict_get project_data (asc ''project_name'')
                                             (Str (asc ''Unknown'')))
                                          a
                                          (length (organic_results all_results))
                                          (length (filter extraction_success
                                                     content_extractions))),
                                   \<sigma>7)))))))"

definition project_steps :: "world \<Rightarrow> pydict \<Rightarrow> pyval \<Rightarrow> state \<Rightarrow> (exn + report) \<times> state" where
  "project_steps w project_data pid \<sigma>0 =
     (case generate_search_queries w project_data \<sigma>0 of
        (queries, \<sigma>1) \<Rightarrow>
          (case save_data w pid (asc ''search'') (SavedQueries queries) \<sigma>1 of
             (Some e, \<sigma>2) \<Rightarrow> (Inl e, \<sigma>2)
           | (None, \<sigma>2) \<Rightarrow>
               (case search_with_brightdata w (english_query queries) (asc ''en'') of
                  Inl e \<Rightarrow> (Inl e, \<sigma>2)
                | Inr english_results \<Rightarrow>
                    (case search_with_brightdata w (bangla_query queries) (asc ''bn'') of
                       Inl e \<Rightarrow> (Inl e, \<sigma>2)
                     | Inr bangla_results \<Rightarrow>
                         project_steps_found w project_data pid queries
                           english_results bangla_results \<sigma>2))))"

definition analyze_project :: "world \<Rightarrow> pydict \<Rightarrow> state \<Rightarrow> report \<times> state" where
  "analyze_project w project_data \<sigma> =
     (let pid = dict_get project_data (asc ''project_id'') (Str (asc ''unknown''))
      in case project_steps w project_data pid \<sigma> of
           (Inr r, \<sigma>') \<Rightarrow> (r, \<sigma>')
         | (Inl e, \<sigma>') \<Rightarrow>
             (ErrorReport pid
                (dict_get project_data (asc ''project_name'') (Str (asc ''Unknown'')))
                (exc_str e),
              \<sigma>'))"

section \<open>Concrete worlds and inputs\<close>

text \<open>
  A world in which every service is down: the model and the network raise, nothing parses.
  The other worlds change single fields of it. \<open>str_lower\<close> is written for ASCII
  texts; no span text reaches it below.
\<close>

definition quiet_world :: world where
  "quiet_world =
     \<lparr>generate_content = (\<lambda>prompt. Inl (Exn ''ServerError'' (asc ''503 UNAVAILABLE''))),
      json_loads = (\<lambda>s. Inl (Exn ''JSONDecodeError'' (asc ''Expecting value''))),
      validate_analysis =
        (\<lambda>d. Inl (Exn ''ValidationError'' (asc ''validation error for OppositionAnalysis''))),
      post_request = (\<lambda>u l. Inl (Exn ''ConnectionError'' (asc ''connection refused''))),
      html_select = (\<lambda>body. Inr []),
      str_lower = map (\<lambda>c. if 65 \<le> c \<and> c \<le> 90 then c + 32 else c),
      jina_get = (\<lambda>i u. Inl (Exn ''Timeout'' (asc ''read timed out''))),
      partition_url = (\<lambda>i u. Inl (Exn ''ConnectionError'' (asc ''connection refused''))),
      group_broken_paragraphs = (\<lambda>s. Inr s),
      write_md = (\<lambda>p c. None),
      dump_json = (\<lambda>p d. None),
      write_md_opened = (\<lambda>p c. True),
      dump_json_opened = (\<lambda>p d. True)\<rparr>"

definition no_state :: state where
  "no_state = \<lparr>files = Map.empty, prompts = []\<rparr>"

definition failed_artifact :: ContentExtraction where
  "failed_artifact =
     \<lparr>url = asc ''http://a.example/1'', title = asc ''A'', content = [],
      extraction_success = False, error_message = Some (asc ''read timed out'')\<rparr>"

definition good_artifact :: ContentExtraction where
  "good_artifact =
     \<lparr>url = asc ''http://b.example/2'', title = asc ''B'',
      content = asc ''Farmers protested.'', extraction_success = True, error_message = None\<rparr>"

text \<open>The search proxy answers 500; answers 200 with a body that is no JSON; answers 200 with a JSON list.\<close>

definition world_500 :: world where
  "world_500 = quiet_world
     \<lparr>post_request :=
        (\<lambda>u l. Inr \<lparr>status_code = 500, resp_text = asc ''Internal Server Error'',
                     resp_json = Inl (Exn ''JSONDecodeError'' (asc ''Expecting value''))\<rparr>)\<rparr>"

definition world_bad_json :: world where
  "world_bad_json = quiet_world
     \<lparr>post_request :=
        (\<lambda>u l. Inr \<lparr>status_code = 200, resp_text = asc ''<html>'',
                     resp_json = Inl (Exn ''JSONDecodeError'' (asc ''Expecting value''))\<rparr>)\<rparr>"

definition world_list_envelope :: world where
  "world_list_envelope = quiet_world
     \<lparr>post_request :=
        (\<lambda>u l. Inr \<lparr>status_code = 200, resp_text = asc ''[]'', resp_json = Inr (JList [])\<rparr>)\<rparr>"

text \<open>
  A results page with two blocks: the first has no link (\<^verbatim>\<open><div class="tF2Cxc">Sponsored</div>\<close>),
  the second is an ordinary result.
\<close>

definition ad_block :: block where
  "ad_block = \<lparr>main_link = None, span_texts = [], all_text = asc ''Sponsored''\<rparr>"

definition news_block :: block where
  "news_block =
     \<lparr>main_link = Some \<lparr>href = asc ''http://news.example/solar'',
                         h3_text = Some (asc ''Solar park protest''),
                         anchor_text = asc ''Solar park protestnews.example''\<rparr>,
      span_texts = [],
      all_text = asc ''Solar park protestFarmers rally''\<rparr>"

definition serp_world :: world where
  "serp_world = quiet_world
     \<lparr>post_request :=
        (\<lambda>u l. Inr \<lparr>status_code = 200, resp_text = asc ''{}'',
                     resp_json = Inr (JDict [(asc ''body'', JStr (asc ''<html>''))])\<rparr>),
      html_select := (\<lambda>body. Inr [ad_block, news_block])\<rparr>"

text \<open>What a search of that page returns: the second block alone, with position 2.\<close>

definition serp_page_results :: "pystr \<Rightarrow> pystr \<Rightarrow> SearchResults" where
  "serp_page_results query lang =
     \<lparr>organic_results =
        [\<lparr>SearchResult.title = asc ''Solar park protest'',
          link = asc ''http://news.example/solar'',
          description = asc ''Farmers rally'', position = 2\<rparr>],
      total_results = 1, search_query = query, language = lang\<rparr>"

text \<open>
  The model answers without text; answers \<^verbatim>\<open>{oops}\<close>, which is no JSON; answers a JSON
  object that is no verdict.
\<close>

definition mute_world :: world where
  "mute_world = quiet_world\<lparr>generate_content := (\<lambda>prompt. Inr None)\<rparr>"

definition garbled_world :: world where
  "garbled_world = quiet_world\<lparr>generate_content := (\<lambda>prompt. Inr (Some (asc ''{oops}'')))\<rparr>"

definition invalid_world :: world where
  \<open>invalid_world = quiet_world
     \<lparr>generate_content := (\<lambda>prompt. Inr (Some (asc ''{"summary": 1}''))),
      json_loads :=
        (\<lambda>s. if s = asc ''{"summary": 1}'' then Inr (JDict [(asc ''summary'', JInt 1)])
             else Inl (Exn ''JSONDecodeError'' (asc ''Expecting value'')))\<rparr>\<close>

text \<open>No file can be written.\<close>

definition disk_full_world :: world where
  "disk_full_world = quiet_world
     \<lparr>dump_json := (\<lambda>p d. Some (Exn ''OSError'' (asc ''[Errno 28] No space left on device'')))\<rparr>"

definition sample_project :: pydict where
  "sample_project =
     [asc ''project_id'' \<mapsto> Str (asc ''351''),
      asc ''project_name'' \<mapsto> Str (asc ''Solar Park''),
      asc ''location'' \<mapsto> Str (asc ''Pabna'')]"

text \<open>
  Two results. In \<open>half_world\<close> the reader proxy times out for the first and answers
  the second; in \<open>jina_500_world\<close> it answers 500, and the partitioner cannot connect.
\<close>

definition two_results :: SearchResults where
  "two_results =
     \<lparr>organic_results =
        [\<lparr>SearchResult.title = asc ''A'', link = asc ''http://a.example/1'',
          description = asc ''first'', position = 1\<rparr>,
         \<lparr>SearchResult.title = asc ''B'', link = asc ''http://b.example/2'',
          description = asc ''second'', position = 2\<rparr>],
      total_results = 2, search_query = asc ''solar park'', language = asc ''en''\<rparr>"

definition half_world :: world where
  "half_world = quiet_world
     \<lparr>jina_get :=
        (\<lambda>i u. if i = 1
           then Inr \<lparr>status_code = 200, resp_text = asc ''Farmers protested.'',
                     resp_json = Inl (Exn ''JSONDecodeError'' (asc ''Expecting value''))\<rparr>
           else Inl (Exn ''Timeout'' (asc ''read timed out'')))\<rparr>"

definition jina_500_world :: world where
  "jina_500_world = quiet_world
     \<lparr>jina_get :=
        (\<lambda>i u. Inr \<lparr>status_code = 500, resp_text = asc ''upstream error'',
                     resp_json = Inl (Exn ''JSONDecodeError'' (asc ''Expecting value''))\<rparr>)\<rparr>"

text \<open>
  The reader proxy answers 500 and the partitioner reads the page: three elements, the
  second without text. The reader proxy answers every URL, and the cleaner raises. The
  reader proxy answers every URL, and the disk is full: the file is opened, and writing
  the text raises.
\<close>

definition fallback_world :: world where
  "fallback_world = jina_500_world
     \<lparr>partition_url := (\<lambda>i u. Inr [asc ''Farmers protested.'', [], asc ''They rallied.''])\<rparr>"

definition answered_world :: world where
  "answered_world = quiet_world
     \<lparr>jina_get :=
        (\<lambda>i u. Inr \<lparr>status_code = 200, resp_text = asc ''Farmers protested.'',
                     resp_json = Inl (Exn ''JSONDecodeError'' (asc ''Expecting value''))\<rparr>)\<rparr>"

definition unclean_world :: world where
  "unclean_world = answered_world
     \<lparr>group_broken_paragraphs :=
        (\<lambda>s. Inl (Exn ''TypeError'' (asc ''expected string or bytes-like object'')))\<rparr>"

definition md_disk_full_world :: world where
  "md_disk_full_world = answered_world
     \<lparr>write_md := (\<lambda>p c. Some (Exn ''OSError'' (asc ''[Errno 28] No space left on device''))),
      write_md_opened := (\<lambda>p c. True)\<rparr>"





text \<open>
  The model wraps a JSON object in a fence, and the first query holds three backticks.
  \<^verbatim>\<open>json.loads\<close> decodes the whole object and rejects every other text.
\<close>

definition fenced_reply :: pystr where
  \<open>fenced_reply =
     asc ''```json\<newline>{"english_query": "a```b", "bangla_query": "c"}\<newline>```''\<close>

definition fenced_world :: world where
  \<open>fenced_world = quiet_world
     \<lparr>generate_content := (\<lambda>prompt. Inr (Some fenced_reply)),
      json_loads :=
        (\<lambda>s. if s = asc ''{"english_query": "a```b", "bangla_query": "c"}''
             then Inr (JDict [(asc ''english_query'', JStr (asc ''a```b'')),
                              (asc ''bangla_query'', JStr (asc ''c''))])
             else Inl (Exn ''JSONDecodeError'' (asc ''Unterminated string'')))\<rparr>\<close>

section \<open>Properties\<close>

subsection \<open>Evidence analysis without content\<close>

lemma gather_content_skips:
  "\<forall>c \<in> set cs. \<not> extraction_success c \<or> content c = [] \<Longrightarrow>
   gather_content cs acc srcs = (acc, srcs)"
  by (induction cs arbitrary: acc srcs) auto

lemma py_strip_Nil: "py_strip [] = []"
  by (simp add: py_strip_def)

text \<open>
  C5: when every artifact of the list is failed or has an empty content (the empty list
  included), \<open>analyze_opposition\<close> returns the verdict without evidence, with confidence
  0.0 and no opposition type or source, and sends no prompt to the model: the state,
  which records every prompt, is returned as it was.
\<close>

theorem no_content_no_model_call:
  assumes "\<forall>c \<in> set cs. \<not> extraction_success c \<or> content c = []"
  shows "analyze_opposition w project_data cs \<sigma> =
           (\<lparr>has_opposition_evidence = False, opposition_types = [],
             summary = asc ''No content could be extracted from search results to analyze.'',
             confidence_score = 0, sources = []\<rparr>, \<sigma>)
         \<and> prompts (snd (analyze_opposition w project_data cs \<sigma>)) = prompts \<sigma>"
  using assms
  by (simp add: analyze_opposition_def gather_content_skips py_strip_Nil no_content_verdict_def)

theorem no_content_no_model_call_witness:
  "analyze_opposition quiet_world Map.empty [failed_artifact] no_state =
     (\<lparr>has_opposition_evidence = False, opposition_types = [],
       summary = asc ''No content could be extracted from search results to analyze.'',
       confidence_score = 0, sources = []\<rparr>, no_state)
   \<and> prompts (snd (analyze_opposition quiet_world Map.empty [failed_artifact] no_state))
       = prompts no_state"
proof -
  have h: "\<forall>c \<in> set [failed_artifact]. \<not> extraction_success c \<or> content c = []"
    by (simp add: failed_artifact_def)
  show ?thesis
    by (rule no_content_no_model_call [OF h])
qed

subsection \<open>Search: failures and counts\<close>

lemma quote_plus_plain:
  "\<not> list_ex is_surrogate query \<Longrightarrow> quote_plus query = Inr (percent_encode query)"
  by (simp add: quote_plus_def)

lemma quote_plus_solar_park: "quote_plus (asc ''solar park'') = Inr (asc ''solar+park'')"
  by (simp add: quote_plus_def percent_encode_def quote_byte_def always_safe_def utf8_bytes_def
      is_surrogate_def asc_def)

lemma quote_plus_songhat:
  "quote_plus songhat = Inr (asc ''%E0%A6%B8%E0%A6%82%E0%A6%98%E0%A6%BE%E0%A6%A4'')"
  by (simp add: quote_plus_def percent_encode_def quote_byte_def always_safe_def utf8_bytes_def
      upper_hex_digit_def is_surrogate_def songhat_def asc_def)

text \<open>
  For a query that UTF-8 can encode, \<open>search_with_brightdata\<close> returns a
  \<open>SearchResults\<close>, and the empty one, with no result and a count of 0, when the request
  raises, when the status is not 200, when the body is no JSON (\<^verbatim>\<open>response.json()\<close>
  raises), when the JSON envelope is not a dictionary, and when parsing it raises.
\<close>

lemma search_failure_policy:
  assumes "\<not> list_ex is_surrogate query"
    and "search_url = asc ''https://www.google.com/search?q='' @ percent_encode query"
    and "nothing =
           \<lparr>organic_results = [], total_results = 0, search_query = query, language = lang\<rparr>"
  shows "(\<exists>results. search_with_brightdata w query lang = Inr results)
    \<and> (post_request w search_url lang = Inl e
            \<longrightarrow> search_with_brightdata w query lang = Inr nothing)
    \<and> (post_request w search_url lang = Inr r \<and> status_code r \<noteq> 200
            \<longrightarrow> search_with_brightdata w query lang = Inr nothing)
    \<and> (post_request w search_url lang = Inr r \<and> resp_json r = Inl e
            \<longrightarrow> search_with_brightdata w query lang = Inr nothing)
    \<and> (post_request w search_url lang = Inr r \<and> resp_json r = Inr d
          \<and> (\<forall>items. d \<noteq> JDict items)
            \<longrightarrow> search_with_brightdata w query lang = Inr nothing)
    \<and> (post_request w search_url lang = Inr r \<and> resp_json r = Inr d
          \<and> parse_search_data w d = Inl e
            \<longrightarrow> search_with_brightdata w query lang = Inr nothing)"
  using assms
  by (auto simp add: search_with_brightdata_def search_request_def quote_plus_def
      empty_results_def parse_search_data_def split: json.splits)

text \<open>
  C2: the claim does not hold of the code for every query string. For the query that is
  the one lone surrogate U+D800, \<open>search_with_brightdata\<close> raises
  \<^verbatim>\<open>UnicodeEncodeError\<close>, whatever the services answer: \<^verbatim>\<open>quote_plus\<close> is called on
  line 170, before the \<^verbatim>\<open>try\<close> block that turns every other failure into the empty
  result.
\<close>

theorem lone_surrogate_query_raises:
  "search_with_brightdata w [55296] lang =
     Inl (Exn ''UnicodeEncodeError''
            ([39] @ asc ''utf-8'' @ [39] @ asc '' codec can'' @ [39] @ asc ''t encode character ''
             @ [39, 92, 117] @ asc ''d800'' @ [39]
             @ asc '' in position 0: surrogates not allowed''))"
  by (simp add: search_with_brightdata_def quote_plus_def is_surrogate_def encode_error_def
      hex_digit_def str_of_nat.simps asc_def)

lemma news_result:
  "result_of_block serp_world 1 news_block =
     Some \<lparr>SearchResult.title = asc ''Solar park protest'',
           link = asc ''http://news.example/solar'',
           description = asc ''Farmers rally'', position = 2\<rparr>"
  by (simp add: result_of_block_def news_block_def py_in_def py_strip_def py_isspace_def asc_def)

lemma ad_result: "result_of_block serp_world 0 ad_block = None"
  by (simp add: result_of_block_def ad_block_def)

lemma serp_results:
  assumes "\<not> list_ex is_surrogate query"
  shows "search_with_brightdata serp_world query lang = Inr (serp_page_results query lang)"
proof -
  have "parse_search_data serp_world (JDict [(asc ''body'', JStr (asc ''<html>''))]) =
        Inr [\<lparr>SearchResult.title = asc ''Solar park protest'',
              link = asc ''http://news.example/solar'',
              description = asc ''Farmers rally'', position = 2\<rparr>]"
    using news_result ad_result
    by (simp add: parse_search_data_def serp_world_def quiet_world_def)
  then have "search_request serp_world query lang u = serp_page_results query lang" for u
    by (simp add: search_request_def serp_world_def quiet_world_def serp_page_results_def)
  then show ?thesis
    using assms by (simp add: search_with_brightdata_def quote_plus_def)
qed

lemma solar_park_plain: "\<not> list_ex is_surrogate (asc ''solar park'')"
  by (simp add: is_surrogate_def asc_def)

lemma songhat_plain: "\<not> list_ex is_surrogate songhat"
  by (simp add: is_surrogate_def songhat_def)

text \<open>
  C10: the count of a \<open>SearchResults\<close> that \<open>search_with_brightdata\<close> returns is the
  length of its list of results, and so is the count of the combined set that
  \<open>analyze_project\<close> builds from the results of the English and the Bangla search.
\<close>

theorem total_results_counts_results:
  "(search_with_brightdata w query lang = Inr results
      \<longrightarrow> total_results results = int (length (organic_results results)))
   \<and> (search_with_brightdata w (english_query queries) (asc ''en'') = Inr english_results
      \<and> search_with_brightdata w (bangla_query queries) (asc ''bn'') = Inr bangla_results
      \<longrightarrow> total_results (combined_results queries english_results bangla_results)
            = int (length (organic_results
                (combined_results queries english_results bangla_results))))"
proof -
  have one: "total_results r = int (length (organic_results r))"
    if "search_with_brightdata w' q l = Inr r" for w' q l r
    using that
    by (auto simp add: search_with_brightdata_def search_request_def empty_results_def
        split: sum.splits if_splits)
  show ?thesis
    by (auto simp add: one combined_results_def)
qed

theorem total_results_counts_results_witness:
  "total_results (serp_page_results (asc ''solar park'') (asc ''en''))
     = int (length (organic_results (serp_page_results (asc ''solar park'') (asc ''en''))))
   \<and> total_results
       (combined_results \<lparr>english_query = asc ''solar park'', bangla_query = songhat\<rparr>
          (serp_page_results (asc ''solar park'') (asc ''en''))
          (serp_page_results songhat (asc ''bn'')))
     = int (length (organic_results
         (combined_results \<lparr>english_query = asc ''solar park'', bangla_query = songhat\<rparr>
            (serp_page_results (asc ''solar park'') (asc ''en''))
            (serp_page_results songhat (asc ''bn'')))))
   \<and> search_with_brightdata serp_world (asc ''solar park'') (asc ''en'')
     = Inr (serp_page_results (asc ''solar park'') (asc ''en''))
   \<and> search_with_brightdata serp_world songhat (asc ''bn'')
     = Inr (serp_page_results songhat (asc ''bn''))"
proof -
  have en: "search_with_brightdata serp_world (asc ''solar park'') (asc ''en'')
      = Inr (serp_page_results (asc ''solar park'') (asc ''en''))"
    using solar_park_plain by (rule serp_results)
  have bn: "search_with_brightdata serp_world songhat (asc ''bn'')
      = Inr (serp_page_results songhat (asc ''bn''))"
    using songhat_plain by (rule serp_results)
  have a: "total_results (serp_page_results (asc ''solar park'') (asc ''en''))
     = int (length (organic_results (serp_page_results (asc ''solar park'') (asc ''en''))))"
    using en by (rule total_results_counts_results [THEN conjunct1, THEN mp])
  have b: "total_results
       (combined_results \<lparr>english_query = asc ''solar park'', bangla_query = songhat\<rparr>
          (serp_page_results (asc ''solar park'') (asc ''en''))
          (serp_page_results songhat (asc ''bn'')))
     = int (length (organic_results
         (combined_results \<lparr>english_query = asc ''solar park'', bangla_query = songhat\<rparr>
            (serp_page_results (asc ''solar park'') (asc ''en''))
            (serp_page_results songhat (asc ''bn'')))))"
    by (rule total_results_counts_results [where w = serp_world, THEN conjunct2, THEN mp])
      (simp add: en bn)
  from a b en bn show ?thesis by (intro conjI)
qed

subsection \<open>Evidence analysis: errors\<close>

lemma in_dropWhile: "x \<in> set s \<Longrightarrow> \<not> P x \<Longrightarrow> x \<in> set (dropWhile P s)"
  by (induction s) auto

lemma py_strip_nonempty:
  assumes "x \<in> set s" "\<not> py_isspace x"
  shows "py_strip s \<noteq> []"
proof -
  from assms have "x \<in> set (rev (dropWhile py_isspace s))"
    by (simp add: in_dropWhile)
  then have "x \<in> set (dropWhile py_isspace (rev (dropWhile py_isspace s)))"
    using assms(2) by (rule in_dropWhile)
  then have "dropWhile py_isspace (rev (dropWhile py_isspace s)) \<noteq> []"
    by (cases "dropWhile py_isspace (rev (dropWhile py_isspace s))") simp_all
  then show ?thesis by (simp only: py_strip_def rev_is_Nil_conv not_False_eq_True)
qed

lemma gather_content_grows:
  "x \<in> set acc \<Longrightarrow> x \<in> set (fst (gather_content cs acc srcs))"
proof (induction cs arbitrary: acc srcs)
  case Nil
  then show ?case by simp
next
  case (Cons c cs)
  show ?case
  proof (cases "extraction_success c \<and> content c \<noteq> []")
    case True
    have "x \<in> set (acc @ (asc ''\<newline>\<newline>--- Content from '' @ url c @ asc '' ---\<newline>'')
             @ (asc ''Title: '' @ ContentExtraction.title c @ asc ''\<newline>'')
             @ (asc ''Content: '' @ content c @ asc ''\<newline>''))"
      using Cons.prems by simp
    then have "x \<in> set (fst (gather_content cs
            (acc @ (asc ''\<newline>\<newline>--- Content from '' @ url c @ asc '' ---\<newline>'')
             @ (asc ''Title: '' @ ContentExtraction.title c @ asc ''\<newline>'')
             @ (asc ''Content: '' @ content c @ asc ''\<newline>'')) (srcs @ [url c])))"
      by (rule Cons.IH)
    with True show ?thesis by simp
  next
    case False
    with Cons show ?thesis by auto
  qed
qed

lemma dash_in_header: "45 \<in> set (asc ''\<newline>\<newline>--- Content from '')"
  by (simp add: asc_def)

lemma gather_content_dash:
  "\<exists>c \<in> set cs. extraction_success c \<and> content c \<noteq> [] \<Longrightarrow>
   45 \<in> set (fst (gather_content cs acc srcs))"
proof (induction cs arbitrary: acc srcs)
  case Nil
  then show ?case by simp
next
  case (Cons c cs)
  show ?case
  proof (cases "extraction_success c \<and> content c \<noteq> []")
    case True
    have "45 \<in> set (acc
             @ (asc ''\<newline>\<newline>--- Content from '' @ url c @ asc '' ---\<newline>'')
             @ (asc ''Title: '' @ ContentExtraction.title c @ asc ''\<newline>'')
             @ (asc ''Content: '' @ content c @ asc ''\<newline>''))"
      using dash_in_header by simp
    then have "45 \<in> set (fst (gather_content cs
            (acc @ (asc ''\<newline>\<newline>--- Content from '' @ url c @ asc '' ---\<newline>'')
             @ (asc ''Title: '' @ ContentExtraction.title c @ asc ''\<newline>'')
             @ (asc ''Content: '' @ content c @ asc ''\<newline>'')) (srcs @ [url c])))"
      by (rule gather_content_grows)
    with True show ?thesis by simp
  next
    case False
    with Cons.prems have "\<exists>c \<in> set cs. extraction_success c \<and> content c \<noteq> []" by auto
    then have "45 \<in> set (fst (gather_content cs acc srcs))" by (rule Cons.IH)
    with False show ?thesis by auto
  qed
qed

lemma analysis_is_attempted:
  assumes "\<exists>c \<in> set cs. extraction_success c \<and> content c \<noteq> []"
  shows "py_strip (fst (gather_content cs [] [])) \<noteq> []"
proof -
  have "\<not> py_isspace 45" by (simp add: py_isspace_def)
  with gather_content_dash [OF assms] show ?thesis
    by (rule py_strip_nonempty)
qed

lemma analyze_opposition_attempt:
  assumes "\<exists>c \<in> set cs. extraction_success c \<and> content c \<noteq> []"
  shows "analyze_opposition w project_data cs \<sigma> =
          (case analysis_attempt w (analysis_prompt project_data (fst (gather_content cs [] []))) of
             Inr a \<Rightarrow> a | Inl e \<Rightarrow> error_verdict e,
           \<sigma>\<lparr>prompts := prompts \<sigma>
                @ [analysis_prompt project_data (fst (gather_content cs [] []))]\<rparr>)"
  using analysis_is_attempted [OF assms]
  by (simp add: analyze_opposition_def Let_def split: sum.splits)

text \<open>
  C4: \<open>analyze_opposition\<close> returns a verdict on every input. When some artifact has
  content, so that the model is asked, every exception of the \<^verbatim>\<open>try\<close> block (the model
  call raises, the reply has no text, \<^verbatim>\<open>json.loads\<close> raises, the validation of the verdict
  raises) gives the verdict without evidence, with confidence 0.0, no opposition type, no
  source, and the summary \<^verbatim>\<open>Error during analysis: \<close> followed by the message of the
  exception.
\<close>

theorem analysis_errors_become_verdict:
  assumes "\<exists>c \<in> set cs. extraction_success c \<and> content c \<noteq> []"
    and "prompt = analysis_prompt project_data (fst (gather_content cs [] []))"
    and "verdict = fst (analyze_opposition w project_data cs \<sigma>)"
    and "failed = \<lparr>has_opposition_evidence = False, opposition_types = [],
                   summary = asc ''Error during analysis: '' @ exc_str e,
                   confidence_score = 0, sources = []\<rparr>"
  shows "(generate_content w prompt = Inl e \<longrightarrow> verdict = failed)
    \<and> (generate_content w prompt = Inr None \<and> e = none_has_no_strip \<longrightarrow> verdict = failed)
    \<and> (generate_content w prompt = Inr (Some t)
         \<and> extract_json_text (py_strip t) (Inr unparsed_json) = Inr json_text
         \<and> json_loads w json_text = Inl e \<longrightarrow> verdict = failed)
    \<and> (generate_content w prompt = Inr (Some t)
         \<and> extract_json_text (py_strip t) (Inr unparsed_json) = Inr json_text
         \<and> json_loads w json_text = Inr d
         \<and> validate_analysis w d = Inl e \<longrightarrow> verdict = failed)
    \<and> (analysis_attempt w prompt = Inl e \<longrightarrow> verdict = failed)"
  using assms(2-4)
  by (simp add: analyze_opposition_attempt [OF assms(1)] analysis_attempt_def error_verdict_def)


lemma oops_is_selected:
  "extract_json_text (py_strip (asc ''{oops}'')) fallback = Inr (asc ''{oops}'')"
  by (simp add: extract_json_text_def py_in_def py_find_def py_rfind_def last_occurrence_def
      py_slice_def clamp_index_def py_strip_def py_isspace_def asc_def)

lemma summary_is_selected:
  \<open>extract_json_text (py_strip (asc ''{"summary": 1}'')) fallback = Inr (asc ''{"summary": 1}'')\<close>
  by (simp add: extract_json_text_def py_in_def py_find_def py_rfind_def last_occurrence_def
      py_slice_def clamp_index_def py_strip_def py_isspace_def asc_def)

theorem analysis_errors_become_verdict_witness:
  "fst (analyze_opposition quiet_world sample_project [good_artifact] no_state) =
     \<lparr>has_opposition_evidence = False, opposition_types = [],
      summary = asc ''Error during analysis: '' @ asc ''503 UNAVAILABLE'',
      confidence_score = 0, sources = []\<rparr>
   \<and> fst (analyze_opposition mute_world sample_project [good_artifact] no_state) =
     \<lparr>has_opposition_evidence = False, opposition_types = [],
      summary = asc ''Error during analysis: '' @ exc_str none_has_no_strip,
      confidence_score = 0, sources = []\<rparr>
   \<and> fst (analyze_opposition garbled_world sample_project [good_artifact] no_state) =
     \<lparr>has_opposition_evidence = False, opposition_types = [],
      summary = asc ''Error during analysis: '' @ asc ''Expecting value'',
      confidence_score = 0, sources = []\<rparr>
   \<and> fst (analyze_opposition invalid_world sample_project [good_artifact] no_state) =
     \<lparr>has_opposition_evidence = False, opposition_types = [],
      summary = asc ''Error during analysis: '' @ asc ''validation error for OppositionAnalysis'',
      confidence_score = 0, sources = []\<rparr>"
proof -
  have h: "\<exists>c \<in> set [good_artifact]. extraction_success c \<and> content c \<noteq> []"
    by (simp add: good_artifact_def asc_def)
  note T = analysis_errors_become_verdict [OF h refl refl refl]
  have a: "fst (analyze_opposition quiet_world sample_project [good_artifact] no_state) =
     \<lparr>has_opposition_evidence = False, opposition_types = [],
      summary = asc ''Error during analysis: '' @ exc_str (Exn ''ServerError'' (asc ''503 UNAVAILABLE'')),
      confidence_score = 0, sources = []\<rparr>"
    by (rule T [THEN conjunct1, THEN mp]) (simp add: quiet_world_def)
  have b: "fst (analyze_opposition mute_world sample_project [good_artifact] no_state) =
     \<lparr>has_opposition_evidence = False, opposition_types = [],
      summary = asc ''Error during analysis: '' @ exc_str none_has_no_strip,
      confidence_score = 0, sources = []\<rparr>"
    by (rule T [THEN conjunct2, THEN conjunct1, THEN mp]) (simp add: mute_world_def quiet_world_def)
  have c: "fst (analyze_opposition garbled_world sample_project [good_artifact] no_state) =
     \<lparr>has_opposition_evidence = False, opposition_types = [],
      summary = asc ''Error during analysis: '' @ exc_str (Exn ''JSONDecodeError'' (asc ''Expecting value'')),
      confidence_score = 0, sources = []\<rparr>"
    by (rule T [where t = "asc ''{oops}''" and json_text = "asc ''{oops}''",
          THEN conjunct2, THEN conjunct2, THEN conjunct1, THEN mp])
      (simp add: garbled_world_def quiet_world_def oops_is_selected)
  have d: "fst (analyze_opposition invalid_world sample_project [good_artifact] no_state) =
     \<lparr>has_opposition_evidence = False, opposition_types = [],
      summary = asc ''Error during analysis: ''
        @ exc_str (Exn ''ValidationError'' (asc ''validation error for OppositionAnalysis'')),
      confidence_score = 0, sources = []\<rparr>"
    by (rule T [where t = \<open>asc ''{"summary": 1}''\<close> and json_text = \<open>asc ''{"summary": 1}''\<close>
            and d = "JDict [(asc ''summary'', JInt 1)]",
          THEN conjunct2, THEN conjunct2, THEN conjunct2, THEN conjunct1, THEN mp])
      (simp add: invalid_world_def quiet_world_def summary_is_selected)
  from a b c d show ?thesis by simp
qed

subsection \<open>The project boundary\<close>

lemma project_steps_report:
  "project_steps w project_data pid \<sigma> = (Inr r, \<sigma>') \<Longrightarrow>
   project_id r = pid
   \<and> project_name r = dict_get project_data (asc ''project_name'') (Str (asc ''Unknown''))"
  by (auto simp add: project_steps_def project_steps_found_def Let_def
      split: prod.splits sum.splits option.splits)

lemma project_steps_first_save:
  "dump_json w (search_dir, fmt pid @ asc ''.json'')
     (SavedQueries (fst (generate_search_queries w project_data \<sigma>))) = Some e \<Longrightarrow>
   fst (project_steps w project_data pid \<sigma>) = Inl e"
  by (cases "generate_search_queries w project_data \<sigma>")
    (simp add: project_steps_def save_data_def write_json_def)

text \<open>
  C6: \<open>analyze_project\<close> returns a report for every project. An exception that leaves
  the steps of the pipeline (here: persisting the queries raises) is caught, and the report
  then holds the project id, the project name and the message of the exception; in every
  case the report carries the id and the name of the project.
\<close>

theorem project_failure_is_reported:
  assumes "pid = dict_get project_data (asc ''project_id'') (Str (asc ''unknown''))"
    and "name = dict_get project_data (asc ''project_name'') (Str (asc ''Unknown''))"
  shows "(project_steps w project_data pid \<sigma> = (Inl e, \<sigma>')
            \<longrightarrow> analyze_project w project_data \<sigma> = (ErrorReport pid name (exc_str e), \<sigma>'))
    \<and> (project_steps w project_data pid \<sigma> = (Inr r, \<sigma>')
            \<longrightarrow> analyze_project w project_data \<sigma> = (r, \<sigma>'))
    \<and> (dump_json w (search_dir, fmt pid @ asc ''.json'')
            (SavedQueries (fst (generate_search_queries w project_data \<sigma>))) = Some e
            \<longrightarrow> fst (analyze_project w project_data \<sigma>) = ErrorReport pid name (exc_str e))
    \<and> project_id (fst (analyze_project w project_data \<sigma>)) = pid
    \<and> project_name (fst (analyze_project w project_data \<sigma>)) = name"
proof (intro conjI impI)
  assume "project_steps w project_data pid \<sigma> = (Inl e, \<sigma>')"
  then show "analyze_project w project_data \<sigma> = (ErrorReport pid name (exc_str e), \<sigma>')"
    using assms by (simp add: analyze_project_def)
next
  assume "project_steps w project_data pid \<sigma> = (Inr r, \<sigma>')"
  then show "analyze_project w project_data \<sigma> = (r, \<sigma>')"
    using assms by (simp add: analyze_project_def)
next
  assume "dump_json w (search_dir, fmt pid @ asc ''.json'')
            (SavedQueries (fst (generate_search_queries w project_data \<sigma>))) = Some e"
  then have "fst (project_steps w project_data pid \<sigma>) = Inl e"
    by (rule project_steps_first_save)
  then show "fst (analyze_project w project_data \<sigma>) = ErrorReport pid name (exc_str e)"
    using assms by (cases "project_steps w project_data pid \<sigma>") (simp add: analyze_project_def)
next
  show "project_id (fst (analyze_project w project_data \<sigma>)) = pid"
    using assms project_steps_report [of w project_data pid \<sigma>]
    by (cases "project_steps w project_data pid \<sigma>")
      (auto simp add: analyze_project_def split: sum.splits)
next
  show "project_name (fst (analyze_project w project_data \<sigma>)) = name"
    using assms project_steps_report [of w project_data pid \<sigma>]
    by (cases "project_steps w project_data pid \<sigma>")
      (auto simp add: analyze_project_def split: sum.splits)
qed

theorem project_failure_is_reported_witness:
  "fst (analyze_project disk_full_world sample_project no_state) =
     ErrorReport (Str (asc ''351'')) (Str (asc ''Solar Park''))
       (asc ''[Errno 28] No space left on device'')"
proof -
  have pid: "Str (asc ''351'') = dict_get sample_project (asc ''project_id'') (Str (asc ''unknown''))"
    by (simp add: sample_project_def dict_get_def asc_def)
  have name: "Str (asc ''Solar Park'')
      = dict_get sample_project (asc ''project_name'') (Str (asc ''Unknown''))"
    by (simp add: sample_project_def dict_get_def asc_def)
  have "fst (analyze_project disk_full_world sample_project no_state) =
     ErrorReport (Str (asc ''351'')) (Str (asc ''Solar Park''))
       (exc_str (Exn ''OSError'' (asc ''[Errno 28] No space left on device'')))"
    by (rule project_failure_is_reported [OF pid name,
          THEN conjunct2, THEN conjunct2, THEN conjunct1, THEN mp])
      (simp add: disk_full_world_def quiet_world_def)
  then show ?thesis by simp
qed

subsection \<open>Search: the position of a result\<close>












subsection \<open>Content extraction: one artifact for each result\<close>

lemma extract_one_artifact:
  "fst (extract_one w pid i r \<sigma>) =
     (case fetch_content w i (link r) of
        Inl e \<Rightarrow>
          \<lparr>url = link r, title = SearchResult.title r, content = [],
           extraction_success = False, error_message = Some (exc_str e)\<rparr>
      | Inr c \<Rightarrow>
          (case clean_content w c of
             Inl e \<Rightarrow>
               \<lparr>url = link r, title = SearchResult.title r, content = [],
                extraction_success = False, error_message = Some (exc_str e)\<rparr>
           | Inr t \<Rightarrow>
               \<lparr>url = link r, title = SearchResult.title r, content = t,
                extraction_success = True, error_message = None\<rparr>))"
  by (simp add: extract_one_def split: sum.splits)

lemma extract_loop_length:
  "length (fst (extract_loop w pid i rs acc \<sigma>)) = length acc + length rs"
proof (induction rs arbitrary: i acc \<sigma>)
  case Nil
  then show ?case by simp
next
  case (Cons r rs)
  show ?case
    by (cases "extract_one w pid i r \<sigma>") (simp add: Cons.IH)
qed

lemma extract_loop_keeps:
  "k < length acc \<Longrightarrow> fst (extract_loop w pid i rs acc \<sigma>) ! k = acc ! k"
proof (induction rs arbitrary: i acc \<sigma>)
  case Nil
  then show ?case by simp
next
  case (Cons r rs)
  show ?case
    using Cons.prems
    by (cases "extract_one w pid i r \<sigma>") (simp add: Cons.IH nth_append)
qed

lemma extract_loop_nth:
  "k < length rs \<Longrightarrow>
   fst (extract_loop w pid i rs acc \<sigma>) ! (length acc + k)
     = fst (extract_one w pid (i + k) (rs ! k) \<sigma>0)"
proof (induction rs arbitrary: i acc \<sigma> k)
  case Nil
  then show ?case by simp
next
  case (Cons r rs)
  obtain c \<sigma>' where one: "extract_one w pid i r \<sigma> = (c, \<sigma>')"
    by (cases "extract_one w pid i r \<sigma>")
  have same: "fst (extract_one w pid i r \<sigma>) = fst (extract_one w pid i r \<sigma>0)"
    by (simp only: extract_one_artifact)
  show ?case
  proof (cases k)
    case 0
    have "fst (extract_loop w pid (Suc i) rs (acc @ [c]) \<sigma>') ! length acc = (acc @ [c]) ! length acc"
      by (rule extract_loop_keeps) simp
    with 0 one same show ?thesis by simp
  next
    case (Suc j)
    with Cons.prems have "j < length rs" by simp
    then have "fst (extract_loop w pid (Suc i) rs (acc @ [c]) \<sigma>') ! (length (acc @ [c]) + j)
        = fst (extract_one w pid (Suc i + j) (rs ! j) \<sigma>0)"
      by (rule Cons.IH)
    with Suc one show ?thesis by simp
  qed
qed

lemma extract_nth:
  assumes "k < length (organic_results search_results)"
  shows "fst (extract_content_from_urls w search_results pid \<sigma>) ! k
     = fst (extract_one w pid k (organic_results search_results ! k) \<sigma>)"
  using extract_loop_nth [OF assms, of w pid 0 "[]" \<sigma> \<sigma>]
  by (simp add: extract_content_from_urls_def)

text \<open>
  C1: \<open>extract_content_from_urls\<close> returns one artifact for each result, in the order of
  the results, with the link and the title of its result. The artifact of a result depends
  on what happens for that result alone: when fetching (both paths) or cleaning raises, it
  is the failed artifact, with an empty content and the message of the exception, and the
  artifacts of the other results are what their own fetches give.
\<close>

theorem one_artifact_per_result:
  assumes "rs = organic_results search_results"
    and "cs = fst (extract_content_from_urls w search_results pid \<sigma>)"
  shows "length cs = length rs
    \<and> map url cs = map link rs
    \<and> map ContentExtraction.title cs = map SearchResult.title rs
    \<and> (\<forall>k<length rs.
         (\<forall>e. fetch_content w k (link (rs ! k)) = Inl e \<longrightarrow>
              cs ! k = \<lparr>url = link (rs ! k), title = SearchResult.title (rs ! k), content = [],
                        extraction_success = False, error_message = Some (exc_str e)\<rparr>)
       \<and> (\<forall>c e. fetch_content w k (link (rs ! k)) = Inr c \<and> clean_content w c = Inl e \<longrightarrow>
              cs ! k = \<lparr>url = link (rs ! k), title = SearchResult.title (rs ! k), content = [],
                        extraction_success = False, error_message = Some (exc_str e)\<rparr>)
       \<and> (\<forall>c t. fetch_content w k (link (rs ! k)) = Inr c \<and> clean_content w c = Inr t \<longrightarrow>
              cs ! k = \<lparr>url = link (rs ! k), title = SearchResult.title (rs ! k), content = t,
                        extraction_success = True, error_message = None\<rparr>))"
proof -
  have len: "length cs = length rs"
    using assms
    by (simp add: extract_content_from_urls_def extract_loop_length)
  have nth: "cs ! k = fst (extract_one w pid k (rs ! k) \<sigma>)" if "k < length rs" for k
    using that assms extract_nth by simp
  have u: "url (cs ! k) = link (rs ! k)" if "k < length rs" for k
    using that by (simp add: nth extract_one_artifact split: sum.splits)
  have t: "ContentExtraction.title (cs ! k) = SearchResult.title (rs ! k)" if "k < length rs" for k
    using that by (simp add: nth extract_one_artifact split: sum.splits)
  have urls: "map url cs = map link rs"
    using len u by (simp add: list_eq_iff_nth_eq)
  have titles: "map ContentExtraction.title cs = map SearchResult.title rs"
    using len t by (simp add: list_eq_iff_nth_eq)
  have each: "\<forall>k<length rs.
         (\<forall>e. fetch_content w k (link (rs ! k)) = Inl e \<longrightarrow>
              cs ! k = \<lparr>url = link (rs ! k), title = SearchResult.title (rs ! k), content = [],
                        extraction_success = False, error_message = Some (exc_str e)\<rparr>)
       \<and> (\<forall>c e. fetch_content w k (link (rs ! k)) = Inr c \<and> clean_content w c = Inl e \<longrightarrow>
              cs ! k = \<lparr>url = link (rs ! k), title = SearchResult.title (rs ! k), content = [],
                        extraction_success = False, error_message = Some (exc_str e)\<rparr>)
       \<and> (\<forall>c t. fetch_content w k (link (rs ! k)) = Inr c \<and> clean_content w c = Inr t \<longrightarrow>
              cs ! k = \<lparr>url = link (rs ! k), title = SearchResult.title (rs ! k), content = t,
                        extraction_success = True, error_message = None\<rparr>)"
    by (simp add: nth extract_one_artifact)
  from len urls titles each show ?thesis by blast
qed

lemma half_fetch_first:
  "fetch_content half_world 0 (asc ''http://a.example/1'')
     = Inl (Exn ''ConnectionError'' (asc ''connection refused''))"
  by (simp add: fetch_content_def half_world_def quiet_world_def)

lemma half_fetch_second:
  "fetch_content half_world 1 (asc ''http://b.example/2'') = Inr (asc ''Farmers protested.'')"
  by (simp add: fetch_content_def half_world_def quiet_world_def)

lemma half_clean:
  "clean_content half_world (asc ''Farmers protested.'') = Inr (asc ''Farmers protested.'')"
  by (simp add: clean_content_def half_world_def quiet_world_def asc_def)

theorem one_artifact_per_result_witness:
  "length (fst (extract_content_from_urls half_world two_results (Str (asc ''351'')) no_state))
     = length (organic_results two_results)
   \<and> fst (extract_content_from_urls half_world two_results (Str (asc ''351'')) no_state) ! 0
     = \<lparr>url = asc ''http://a.example/1'', title = asc ''A'', content = [],
        extraction_success = False, error_message = Some (asc ''connection refused'')\<rparr>
   \<and> fst (extract_content_from_urls half_world two_results (Str (asc ''351'')) no_state) ! 1
     = \<lparr>url = asc ''http://b.example/2'', title = asc ''B'',
        content = asc ''Farmers protested.'', extraction_success = True,
        error_message = None\<rparr>"
proof -
  note T = one_artifact_per_result [OF refl refl, of half_world two_results "Str (asc ''351'')"
      no_state]
  have l0: "link (organic_results two_results ! 0) = asc ''http://a.example/1''"
    and t0: "SearchResult.title (organic_results two_results ! 0) = asc ''A''"
    and l1: "link (organic_results two_results ! 1) = asc ''http://b.example/2''"
    and t1: "SearchResult.title (organic_results two_results ! 1) = asc ''B''"
    by (simp_all add: two_results_def)
  have n0: "0 < length (organic_results two_results)"
    and n1: "1 < length (organic_results two_results)"
    by (simp_all add: two_results_def)
  from T have len: "length (fst (extract_content_from_urls half_world two_results
        (Str (asc ''351'')) no_state)) = length (organic_results two_results)"
    by (rule conjunct1)
  from T have each: "\<forall>k<length (organic_results two_results).
      (\<forall>e. fetch_content half_world k (link (organic_results two_results ! k)) = Inl e \<longrightarrow>
         fst (extract_content_from_urls half_world two_results (Str (asc ''351'')) no_state) ! k
           = \<lparr>url = link (organic_results two_results ! k),
              title = SearchResult.title (organic_results two_results ! k), content = [],
              extraction_success = False, error_message = Some (exc_str e)\<rparr>)
      \<and> (\<forall>c e. fetch_content half_world k (link (organic_results two_results ! k)) = Inr c
            \<and> clean_content half_world c = Inl e \<longrightarrow>
         fst (extract_content_from_urls half_world two_results (Str (asc ''351'')) no_state) ! k
           = \<lparr>url = link (organic_results two_results ! k),
              title = SearchResult.title (organic_results two_results ! k), content = [],
              extraction_success = False, error_message = Some (exc_str e)\<rparr>)
      \<and> (\<forall>c t. fetch_content half_world k (link (organic_results two_results ! k)) = Inr c
            \<and> clean_content half_world c = Inr t \<longrightarrow>
         fst (extract_content_from_urls half_world two_results (Str (asc ''351'')) no_state) ! k
           = \<lparr>url = link (organic_results two_results ! k),
              title = SearchResult.title (organic_results two_results ! k), content = t,
              extraction_success = True, error_message = None\<rparr>)"
    by blast
  from each n0
  have "fetch_content half_world 0 (link (organic_results two_results ! 0))
          = Inl (Exn ''ConnectionError'' (asc ''connection refused'')) \<longrightarrow>
        fst (extract_content_from_urls half_world two_results (Str (asc ''351'')) no_state) ! 0
           = \<lparr>url = link (organic_results two_results ! 0),
              title = SearchResult.title (organic_results two_results ! 0), content = [],
              extraction_success = False,
              error_message = Some (exc_str (Exn ''ConnectionError'' (asc ''connection refused'')))\<rparr>"
    by blast
  note A = this [unfolded l0 t0 exn.sel]
  from A half_fetch_first
  have a: "fst (extract_content_from_urls half_world two_results (Str (asc ''351'')) no_state) ! 0
     = \<lparr>url = asc ''http://a.example/1'', title = asc ''A'', content = [],
        extraction_success = False, error_message = Some (asc ''connection refused'')\<rparr>"
    by blast
  from each n1
  have "fetch_content half_world 1 (link (organic_results two_results ! 1))
          = Inr (asc ''Farmers protested.'')
        \<and> clean_content half_world (asc ''Farmers protested.'') = Inr (asc ''Farmers protested.'')
        \<longrightarrow>
        fst (extract_content_from_urls half_world two_results (Str (asc ''351'')) no_state) ! 1
           = \<lparr>url = link (organic_results two_results ! 1),
              title = SearchResult.title (organic_results two_results ! 1),
              content = asc ''Farmers protested.'',
              extraction_success = True, error_message = None\<rparr>"
    by blast
  note B = this [unfolded l1 t1]
  from B half_fetch_second half_clean
  have b: "fst (extract_content_from_urls half_world two_results (Str (asc ''351'')) no_state) ! 1
     = \<lparr>url = asc ''http://b.example/2'', title = asc ''B'',
        content = asc ''Farmers protested.'', extraction_success = True,
        error_message = None\<rparr>"
    by blast
  from len a b show ?thesis by blast
qed

subsection \<open>Content extraction: the files written\<close>

lemma decode_str_of_nat:
  "foldl (\<lambda>a c. 10 * a + (c - 48)) 0 (str_of_nat n) = n"
proof (induction n rule: str_of_nat.induct)
  case (1 n)
  show ?case
  proof (cases "n < 10")
    case True
    then show ?thesis by (simp add: str_of_nat.simps [of n])
  next
    case False
    with 1 have "foldl (\<lambda>a c. 10 * a + (c - 48)) 0 (str_of_nat (n div 10)) = n div 10"
      by simp
    with False show ?thesis by (simp add: str_of_nat.simps [of n])
  qed
qed

lemma str_of_nat_inj: "str_of_nat m = str_of_nat n \<Longrightarrow> m = n"
  by (metis decode_str_of_nat)

lemma md_path_inj: "md_path pid i = md_path pid j \<Longrightarrow> i = j"
  using str_of_nat_inj [of "i + 1" "j + 1"] by (simp add: md_path_def)

lemma extract_one_other_file:
  "p \<noteq> md_path pid i \<Longrightarrow> files (snd (extract_one w pid i r \<sigma>)) p = files \<sigma> p"
  by (simp add: extract_one_def split: sum.splits option.splits)

lemma extract_one_file_cong:
  "files \<sigma> p = files \<sigma>0 p \<Longrightarrow>
   files (snd (extract_one w pid i r \<sigma>)) p = files (snd (extract_one w pid i r \<sigma>0)) p"
  by (simp add: extract_one_def split: sum.splits option.splits)

lemma extract_loop_other_file:
  "(\<And>j. i \<le> j \<Longrightarrow> j < i + length rs \<Longrightarrow> p \<noteq> md_path pid j) \<Longrightarrow>
   files (snd (extract_loop w pid i rs acc \<sigma>)) p = files \<sigma> p"
proof (induction rs arbitrary: i acc \<sigma>)
  case Nil
  then show ?case by simp
next
  case (Cons r rs)
  obtain c \<sigma>' where one: "extract_one w pid i r \<sigma> = (c, \<sigma>')"
    by (cases "extract_one w pid i r \<sigma>")
  have "p \<noteq> md_path pid i" using Cons.prems [of i] by simp
  then have here: "files \<sigma>' p = files \<sigma> p"
    using extract_one_other_file [of p pid i w r \<sigma>] one by simp
  have "files (snd (extract_loop w pid (Suc i) rs (acc @ [c]) \<sigma>')) p = files \<sigma>' p"
    by (rule Cons.IH) (use Cons.prems in simp)
  with here one show ?case by simp
qed

lemma extract_loop_file:
  "k < length rs \<Longrightarrow>
   files (snd (extract_loop w pid i rs acc \<sigma>)) (md_path pid (i + k))
     = files (snd (extract_one w pid (i + k) (rs ! k) \<sigma>)) (md_path pid (i + k))"
proof (induction rs arbitrary: i acc \<sigma> k)
  case Nil
  then show ?case by simp
next
  case (Cons r rs)
  obtain c \<sigma>' where one: "extract_one w pid i r \<sigma> = (c, \<sigma>')"
    by (cases "extract_one w pid i r \<sigma>")
  show ?case
  proof (cases k)
    case 0
    have "files (snd (extract_loop w pid (Suc i) rs (acc @ [c]) \<sigma>')) (md_path pid i)
        = files \<sigma>' (md_path pid i)"
    proof (rule extract_loop_other_file)
      fix j assume "Suc i \<le> j"
      then have "i \<noteq> j" by simp
      then show "md_path pid i \<noteq> md_path pid j" using md_path_inj by blast
    qed
    with 0 one show ?thesis by simp
  next
    case (Suc j)
    with Cons.prems have j: "j < length rs" by simp
    have ne: "md_path pid (Suc i + j) \<noteq> md_path pid i"
      using md_path_inj [of pid "Suc i + j" i] by auto
    have "files (snd (extract_loop w pid (Suc i) rs (acc @ [c]) \<sigma>')) (md_path pid (Suc i + j))
        = files (snd (extract_one w pid (Suc i + j) (rs ! j) \<sigma>')) (md_path pid (Suc i + j))"
      using j by (rule Cons.IH)
    also have "\<dots> = files (snd (extract_one w pid (Suc i + j) (rs ! j) \<sigma>)) (md_path pid (Suc i + j))"
    proof (rule extract_one_file_cong)
      show "files \<sigma>' (md_path pid (Suc i + j)) = files \<sigma> (md_path pid (Suc i + j))"
        using extract_one_other_file [OF ne, of w r \<sigma>] one by simp
    qed
    finally show ?thesis using Suc one by simp
  qed
qed

lemma jina_500_fetch:
  "fetch_content jina_500_world 0 (asc ''http://a.example/1'')
     = Inl (Exn ''ConnectionError'' (asc ''connection refused''))"
  by (simp add: fetch_content_def jina_500_world_def quiet_world_def)

lemma extract_file:
  assumes "k < length (organic_results search_results)"
  shows "files (snd (extract_content_from_urls w search_results pid \<sigma>)) (md_path pid k)
     = files (snd (extract_one w pid k (organic_results search_results ! k) \<sigma>)) (md_path pid k)"
  using extract_loop_file [OF assms, of w pid 0 "[]" \<sigma>]
  by (simp add: extract_content_from_urls_def)

lemma jina_fetch:
  "jina_get w i (asc ''https://r.jina.ai/'' @ lnk) = Inr jr \<Longrightarrow> status_code jr = 200 \<Longrightarrow>
   fetch_content w i lnk = Inr (resp_text jr)"
  by (simp add: fetch_content_def)

text \<open>
  When the reader proxy raises or answers another status than 200, the text fetched is
  that of the partitioner: the texts of its elements that are not empty, one on a line.
\<close>

lemma fallback_fetch:
  assumes "jina_get w i (asc ''https://r.jina.ai/'' @ lnk) = Inl e
           \<or> (\<exists>jr. jina_get w i (asc ''https://r.jina.ai/'' @ lnk) = Inr jr
                    \<and> status_code jr \<noteq> 200)"
  shows "fetch_content w i lnk =
           (case partition_url w i lnk of
              Inl e' \<Rightarrow> Inl e'
            | Inr elements \<Rightarrow> Inr (py_join (asc ''\<newline>'') (filter (\<lambda>t. t \<noteq> []) elements)))"
  using assms by (auto simp add: fetch_content_def)

lemma first_md_path: "md_path (Str (asc ''351'')) 0 = (content_dir, asc ''351_1.md'')"
  by (simp add: md_path_def str_of_nat.simps asc_def)

lemma first_of_two:
  "0 < length (organic_results two_results)"
  "link (organic_results two_results ! 0) = asc ''http://a.example/1''"
  by (simp_all add: two_results_def)

lemma fallback_world_fetch:
  "fetch_content fallback_world 0 (asc ''http://a.example/1'')
     = Inr (asc ''Farmers protested.'' @ asc ''\<newline>'' @ asc ''They rallied.'')"
proof -
  have "fetch_content fallback_world 0 (asc ''http://a.example/1'') =
           (case partition_url fallback_world 0 (asc ''http://a.example/1'') of
              Inl e' \<Rightarrow> Inl e'
            | Inr elements \<Rightarrow> Inr (py_join (asc ''\<newline>'') (filter (\<lambda>t. t \<noteq> []) elements)))"
    by (rule fallback_fetch)
      (simp add: fallback_world_def jina_500_world_def quiet_world_def)
  then show ?thesis
    by (simp add: fallback_world_def jina_500_world_def quiet_world_def asc_def)
qed

lemma fallback_world_clean:
  "clean_content fallback_world (asc ''Farmers protested.'' @ asc ''\<newline>'' @ asc ''They rallied.'')
     = Inr (asc ''Farmers protested.'' @ asc ''\<newline>'' @ asc ''They rallied.'')"
  by (simp add: clean_content_def fallback_world_def jina_500_world_def quiet_world_def asc_def)

lemma answered_fetch:
  "fetch_content unclean_world 0 (asc ''http://a.example/1'') = Inr (asc ''Farmers protested.'')"
  by (rule jina_fetch [where jr = "\<lparr>status_code = 200, resp_text = asc ''Farmers protested.'',
          resp_json = Inl (Exn ''JSONDecodeError'' (asc ''Expecting value''))\<rparr>",
        simplified])
    (simp add: unclean_world_def answered_world_def quiet_world_def)

lemma unclean_world_clean:
  "clean_content unclean_world (asc ''Farmers protested.'')
     = Inl (Exn ''TypeError'' (asc ''expected string or bytes-like object''))"
  by (simp add: clean_content_def unclean_world_def answered_world_def quiet_world_def)

text \<open>
  C8, as the claim states it, fails, in three ways. When the reader proxy answers 500 for
  a URL and the partitioner cannot connect, the artifact of that URL is failed and no file
  \<^verbatim>\<open>content/351_1.md\<close> is written. When the reader proxy answers 200 and cleaning its
  text raises, the artifact is failed and again no file is written, although there was
  output of the primary path. When the reader proxy answers 500 and the partitioner reads
  the page, the artifact is successful and the file holds the text of the partitioner,
  not output of the primary path.
\<close>

theorem primary_output_not_persisted_counterexample:
  "\<not> extraction_success
       (fst (extract_content_from_urls jina_500_world two_results (Str (asc ''351'')) no_state) ! 0)
   \<and> files (snd (extract_content_from_urls jina_500_world two_results (Str (asc ''351'')) no_state))
       (content_dir, asc ''351_1.md'') = None
   \<and> \<not> extraction_success
       (fst (extract_content_from_urls unclean_world two_results (Str (asc ''351'')) no_state) ! 0)
   \<and> files (snd (extract_content_from_urls unclean_world two_results (Str (asc ''351'')) no_state))
       (content_dir, asc ''351_1.md'') = None
   \<and> extraction_success
       (fst (extract_content_from_urls fallback_world two_results (Str (asc ''351'')) no_state) ! 0)
   \<and> files (snd (extract_content_from_urls fallback_world two_results (Str (asc ''351'')) no_state))
       (content_dir, asc ''351_1.md'')
     = Some (MdText (asc ''Farmers protested.'' @ asc ''\<newline>'' @ asc ''They rallied.''))
   \<and> asc ''Farmers protested.'' @ asc ''\<newline>'' @ asc ''They rallied.'' \<noteq> asc ''upstream error''"
proof -
  note n0 = first_of_two(1) and l0 = first_of_two(2)
  have a: "\<not> extraction_success
       (fst (extract_content_from_urls jina_500_world two_results (Str (asc ''351'')) no_state) ! 0)"
    using jina_500_fetch
    by (simp add: extract_nth [OF n0] extract_one_artifact l0)
  have "files (snd (extract_content_from_urls jina_500_world two_results (Str (asc ''351''))
          no_state)) (md_path (Str (asc ''351'')) 0) = None"
    using jina_500_fetch
    by (simp add: extract_file [OF n0] extract_one_def l0 no_state_def)
  then have b: "files (snd (extract_content_from_urls jina_500_world two_results
        (Str (asc ''351'')) no_state)) (content_dir, asc ''351_1.md'') = None"
    by (simp only: first_md_path)
  have c: "\<not> extraction_success
       (fst (extract_content_from_urls unclean_world two_results (Str (asc ''351'')) no_state) ! 0)"
    using answered_fetch unclean_world_clean
    by (simp add: extract_nth [OF n0] extract_one_artifact l0)
  have "files (snd (extract_content_from_urls unclean_world two_results (Str (asc ''351''))
          no_state)) (md_path (Str (asc ''351'')) 0) = None"
    using answered_fetch unclean_world_clean
    by (simp add: extract_file [OF n0] extract_one_def l0 no_state_def)
  then have d: "files (snd (extract_content_from_urls unclean_world two_results
        (Str (asc ''351'')) no_state)) (content_dir, asc ''351_1.md'') = None"
    by (simp only: first_md_path)
  have e: "extraction_success
       (fst (extract_content_from_urls fallback_world two_results (Str (asc ''351'')) no_state) ! 0)"
    using fallback_world_fetch fallback_world_clean
    by (simp add: extract_nth [OF n0] extract_one_artifact l0)
  have wr: "write_md fallback_world p c = None" for p c
    by (simp add: fallback_world_def jina_500_world_def quiet_world_def)
  have "files (snd (extract_content_from_urls fallback_world two_results (Str (asc ''351''))
          no_state)) (md_path (Str (asc ''351'')) 0)
     = Some (MdText (asc ''Farmers protested.'' @ asc ''\<newline>'' @ asc ''They rallied.''))"
    using fallback_world_fetch fallback_world_clean
    by (simp add: extract_file [OF n0] extract_one_def l0 wr)
  then have f: "files (snd (extract_content_from_urls fallback_world two_results
        (Str (asc ''351'')) no_state)) (content_dir, asc ''351_1.md'')
     = Some (MdText (asc ''Farmers protested.'' @ asc ''\<newline>'' @ asc ''They rallied.''))"
    by (simp only: first_md_path)
  have g: "asc ''Farmers protested.'' @ asc ''\<newline>'' @ asc ''They rallied.'' \<noteq> asc ''upstream error''"
    by (simp add: asc_def)
  from a b c d e f g show ?thesis by (intro conjI)
qed

text \<open>
  C8, amended: for the result at index \<open>k\<close>, when the reader proxy answers 200 and
  cleaning its text does not raise, the artifact is successful and the body of the answer,
  before cleaning and clipping, is written to the file \<^verbatim>\<open><project_id>_<k+1>.md\<close> of the
  content directory, which holds it when the loop ends; unless writing it raises, which is
  only logged: then the file is as it was when \<^verbatim>\<open>open\<close> raised, and truncated
  otherwise. For a result whose artifact is failed the file is left as it was, nothing is
  written; this is so in particular when the reader proxy answered 200 and cleaning raised.
  The last part of the theorem says what the file receives in the case that the amended
  claim leaves out: when the reader proxy raises or answers another status and the
  partitioner reads the page, it is the text of the partitioner.
\<close>

theorem raw_text_is_saved_on_success:
  assumes "rs = organic_results search_results"
    and "k < length rs"
    and "cs = fst (extract_content_from_urls w search_results pid \<sigma>)"
    and "\<sigma>' = snd (extract_content_from_urls w search_results pid \<sigma>)"
    and "p = (content_dir, fmt pid @ asc ''_'' @ str_of_nat (k + 1) @ asc ''.md'')"
    and "jina_url = asc ''https://r.jina.ai/'' @ link (rs ! k)"
  shows "(jina_get w k jina_url = Inr jr \<and> status_code jr = 200
            \<and> clean_content w (resp_text jr) = Inr t \<and> write_md w p (resp_text jr) = None
          \<longrightarrow> extraction_success (cs ! k) \<and> files \<sigma>' p = Some (MdText (resp_text jr)))
    \<and> (jina_get w k jina_url = Inr jr \<and> status_code jr = 200
            \<and> clean_content w (resp_text jr) = Inr t \<and> write_md w p (resp_text jr) = Some e
          \<longrightarrow> extraction_success (cs ! k)
              \<and> files \<sigma>' p = (if write_md_opened w p (resp_text jr) then Some Truncated
                                else files \<sigma> p))
    \<and> (\<not> extraction_success (cs ! k) \<longrightarrow> files \<sigma>' p = files \<sigma> p)
    \<and> (jina_get w k jina_url = Inr jr \<and> status_code jr = 200
            \<and> clean_content w (resp_text jr) = Inl e
          \<longrightarrow> \<not> extraction_success (cs ! k) \<and> files \<sigma>' p = files \<sigma> p)
    \<and> ((jina_get w k jina_url = Inl e
            \<or> (jina_get w k jina_url = Inr jr \<and> status_code jr \<noteq> 200))
          \<and> partition_url w k (link (rs ! k)) = Inr elements
          \<and> other = py_join (asc ''\<newline>'') (filter (\<lambda>t. t \<noteq> []) elements)
          \<and> clean_content w other = Inr t \<and> write_md w p other = None
          \<longrightarrow> extraction_success (cs ! k) \<and> files \<sigma>' p = Some (MdText other))"
proof -
  have p: "p = md_path pid k" using assms(5) by (simp add: md_path_def)
  have k: "k < length (organic_results search_results)" using assms(1,2) by simp
  have f: "files \<sigma>' (md_path pid k)
      = files (snd (extract_one w pid k (rs ! k) \<sigma>)) (md_path pid k)"
    using extract_file [OF k, of w pid \<sigma>] assms(1,4) by simp
  have a: "cs ! k = fst (extract_one w pid k (rs ! k) \<sigma>)"
    using extract_nth [OF k, of w pid \<sigma>] assms(1,3) by simp
  have fc: "fetch_content w k (link (rs ! k)) = Inr (resp_text jr)"
    if "jina_get w k jina_url = Inr jr" "status_code jr = 200"
    using that unfolding assms(6) by (rule jina_fetch)
  have 1: "jina_get w k jina_url = Inr jr \<and> status_code jr = 200
            \<and> clean_content w (resp_text jr) = Inr t \<and> write_md w p (resp_text jr) = None
          \<longrightarrow> extraction_success (cs ! k) \<and> files \<sigma>' p = Some (MdText (resp_text jr))"
    unfolding p by (simp add: f a extract_one_def fc)
  have 2: "jina_get w k jina_url = Inr jr \<and> status_code jr = 200
            \<and> clean_content w (resp_text jr) = Inr t \<and> write_md w p (resp_text jr) = Some e
          \<longrightarrow> extraction_success (cs ! k)
              \<and> files \<sigma>' p = (if write_md_opened w p (resp_text jr) then Some Truncated
                                else files \<sigma> p)"
    unfolding p by (simp add: f a extract_one_def fc)
  have 3: "\<not> extraction_success (cs ! k) \<longrightarrow> files \<sigma>' p = files \<sigma> p"
    unfolding p by (simp add: f a extract_one_def split: sum.splits)
  have 4: "jina_get w k jina_url = Inr jr \<and> status_code jr = 200
            \<and> clean_content w (resp_text jr) = Inl e
          \<longrightarrow> \<not> extraction_success (cs ! k) \<and> files \<sigma>' p = files \<sigma> p"
    unfolding p by (simp add: f a extract_one_def fc)
  have 5: "(jina_get w k jina_url = Inl e
            \<or> (jina_get w k jina_url = Inr jr \<and> status_code jr \<noteq> 200))
          \<and> partition_url w k (link (rs ! k)) = Inr elements
          \<and> other = py_join (asc ''\<newline>'') (filter (\<lambda>t. t \<noteq> []) elements)
          \<and> clean_content w other = Inr t \<and> write_md w p other = None
          \<longrightarrow> extraction_success (cs ! k) \<and> files \<sigma>' p = Some (MdText other)"
  proof (intro impI, elim conjE)
    assume j: "jina_get w k jina_url = Inl e
            \<or> (jina_get w k jina_url = Inr jr \<and> status_code jr \<noteq> 200)"
      and pu: "partition_url w k (link (rs ! k)) = Inr elements"
      and o: "other = py_join (asc ''\<newline>'') (filter (\<lambda>t. t \<noteq> []) elements)"
      and cl: "clean_content w other = Inr t"
      and wr: "write_md w p other = None"
    have "jina_get w k (asc ''https://r.jina.ai/'' @ link (rs ! k)) = Inl e
           \<or> (\<exists>jr. jina_get w k (asc ''https://r.jina.ai/'' @ link (rs ! k)) = Inr jr
                    \<and> status_code jr \<noteq> 200)"
      using j unfolding assms(6) by blast
    then have "fetch_content w k (link (rs ! k)) = Inr other"
      unfolding o by (simp add: fallback_fetch pu)
    then show "extraction_success (cs ! k) \<and> files \<sigma>' p = Some (MdText other)"
      using cl wr unfolding p by (simp add: f a extract_one_def)
  qed
  from 1 2 3 4 5 show ?thesis by blast
qed

lemma half_world_first_fails:
  "extraction_success
     (fst (extract_content_from_urls half_world two_results (Str (asc ''351'')) no_state) ! 0)
   = False"
proof -
  have n0: "0 < length (organic_results two_results)"
    and l0: "link (organic_results two_results ! 0) = asc ''http://a.example/1''"
    by (simp_all add: two_results_def)
  show ?thesis
    using half_fetch_first
    by (simp add: extract_nth [OF n0] extract_one_artifact l0)
qed

theorem raw_text_is_saved_on_success_witness:
  "files (snd (extract_content_from_urls half_world two_results (Str (asc ''351'')) no_state))
     (content_dir, fmt (Str (asc ''351'')) @ asc ''_'' @ str_of_nat (1 + 1) @ asc ''.md'')
     = Some (MdText (asc ''Farmers protested.''))
   \<and> files (snd (extract_content_from_urls half_world two_results (Str (asc ''351'')) no_state))
     (content_dir, fmt (Str (asc ''351'')) @ asc ''_'' @ str_of_nat (0 + 1) @ asc ''.md'')
     = files no_state
         (content_dir, fmt (Str (asc ''351'')) @ asc ''_'' @ str_of_nat (0 + 1) @ asc ''.md'')
   \<and> files (snd (extract_content_from_urls md_disk_full_world two_results (Str (asc ''351''))
        no_state))
     (content_dir, fmt (Str (asc ''351'')) @ asc ''_'' @ str_of_nat (0 + 1) @ asc ''.md'')
     = Some Truncated
   \<and> files (snd (extract_content_from_urls unclean_world two_results (Str (asc ''351''))
        no_state))
     (content_dir, fmt (Str (asc ''351'')) @ asc ''_'' @ str_of_nat (0 + 1) @ asc ''.md'')
     = files no_state
         (content_dir, fmt (Str (asc ''351'')) @ asc ''_'' @ str_of_nat (0 + 1) @ asc ''.md'')
   \<and> files (snd (extract_content_from_urls fallback_world two_results (Str (asc ''351''))
        no_state))
     (content_dir, fmt (Str (asc ''351'')) @ asc ''_'' @ str_of_nat (0 + 1) @ asc ''.md'')
     = Some (MdText (py_join (asc ''\<newline>'')
         (filter (\<lambda>t. t \<noteq> []) [asc ''Farmers protested.'', [], asc ''They rallied.''])))"
proof -
  have n0: "0 < length (organic_results two_results)"
    and n1: "1 < length (organic_results two_results)"
    by (simp_all add: two_results_def)
  let ?jr = "\<lparr>status_code = 200, resp_text = asc ''Farmers protested.'',
              resp_json = Inl (Exn ''JSONDecodeError'' (asc ''Expecting value''))\<rparr>"
  have p1: "jina_get half_world 1
        (asc ''https://r.jina.ai/'' @ link (organic_results two_results ! 1)) = Inr ?jr
      \<and> status_code ?jr = 200
      \<and> clean_content half_world (resp_text ?jr) = Inr (asc ''Farmers protested.'')
      \<and> write_md half_world
          (content_dir, fmt (Str (asc ''351'')) @ asc ''_'' @ str_of_nat (1 + 1) @ asc ''.md'')
          (resp_text ?jr) = None"
  proof (intro conjI)
    show "jina_get half_world 1
        (asc ''https://r.jina.ai/'' @ link (organic_results two_results ! 1)) = Inr ?jr"
      by (simp add: half_world_def quiet_world_def)
    show "status_code ?jr = 200" by simp
    show "clean_content half_world (resp_text ?jr) = Inr (asc ''Farmers protested.'')"
      by (simp add: half_clean)
    show "write_md half_world
          (content_dir, fmt (Str (asc ''351'')) @ asc ''_'' @ str_of_nat (1 + 1) @ asc ''.md'')
          (resp_text ?jr) = None"
      by (simp add: half_world_def quiet_world_def)
  qed
  have "files (snd (extract_content_from_urls half_world two_results (Str (asc ''351''))
        no_state))
     (content_dir, fmt (Str (asc ''351'')) @ asc ''_'' @ str_of_nat (1 + 1) @ asc ''.md'')
     = Some (MdText (resp_text ?jr))"
    by (rule raw_text_is_saved_on_success [OF refl n1 refl refl refl refl,
          THEN conjunct1, THEN mp, THEN conjunct2, OF p1])
  then have a: "files (snd (extract_content_from_urls half_world two_results (Str (asc ''351''))
        no_state))
     (content_dir, fmt (Str (asc ''351'')) @ asc ''_'' @ str_of_nat (1 + 1) @ asc ''.md'')
     = Some (MdText (asc ''Farmers protested.''))"
    by simp
  note T0 = raw_text_is_saved_on_success [OF refl n0 refl refl refl refl,
      where w = half_world and pid = "Str (asc ''351'')" and \<sigma> = no_state,
      THEN conjunct2, THEN conjunct2, THEN conjunct1]
  have "\<not> extraction_success
      (fst (extract_content_from_urls half_world two_results (Str (asc ''351'')) no_state) ! 0)"
    using half_world_first_fails by simp
  with T0 have b: "files (snd (extract_content_from_urls half_world two_results
        (Str (asc ''351'')) no_state))
     (content_dir, fmt (Str (asc ''351'')) @ asc ''_'' @ str_of_nat (0 + 1) @ asc ''.md'')
     = files no_state
         (content_dir, fmt (Str (asc ''351'')) @ asc ''_'' @ str_of_nat (0 + 1) @ asc ''.md'')"
    by blast
  have p2: "jina_get md_disk_full_world 0
        (asc ''https://r.jina.ai/'' @ link (organic_results two_results ! 0)) = Inr ?jr
      \<and> status_code ?jr = 200
      \<and> clean_content md_disk_full_world (resp_text ?jr) = Inr (asc ''Farmers protested.'')
      \<and> write_md md_disk_full_world
          (content_dir, fmt (Str (asc ''351'')) @ asc ''_'' @ str_of_nat (0 + 1) @ asc ''.md'')
          (resp_text ?jr) = Some (Exn ''OSError'' (asc ''[Errno 28] No space left on device''))"
  proof (intro conjI)
    show "jina_get md_disk_full_world 0
        (asc ''https://r.jina.ai/'' @ link (organic_results two_results ! 0)) = Inr ?jr"
      by (simp add: md_disk_full_world_def answered_world_def quiet_world_def)
    show "status_code ?jr = 200" by simp
    show "clean_content md_disk_full_world (resp_text ?jr) = Inr (asc ''Farmers protested.'')"
      by (simp add: clean_content_def md_disk_full_world_def answered_world_def quiet_world_def
          asc_def)
    show "write_md md_disk_full_world
          (content_dir, fmt (Str (asc ''351'')) @ asc ''_'' @ str_of_nat (0 + 1) @ asc ''.md'')
          (resp_text ?jr) = Some (Exn ''OSError'' (asc ''[Errno 28] No space left on device''))"
      by (simp add: md_disk_full_world_def)
  qed
  have "files (snd (extract_content_from_urls md_disk_full_world two_results (Str (asc ''351''))
        no_state))
     (content_dir, fmt (Str (asc ''351'')) @ asc ''_'' @ str_of_nat (0 + 1) @ asc ''.md'')
     = (if write_md_opened md_disk_full_world
            (content_dir, fmt (Str (asc ''351'')) @ asc ''_'' @ str_of_nat (0 + 1) @ asc ''.md'')
            (resp_text ?jr)
        then Some Truncated
        else files no_state
          (content_dir, fmt (Str (asc ''351'')) @ asc ''_'' @ str_of_nat (0 + 1) @ asc ''.md''))"
    by (rule raw_text_is_saved_on_success [OF refl n0 refl refl refl refl,
          THEN conjunct2, THEN conjunct1, THEN mp, THEN conjunct2, OF p2])
  then have c: "files (snd (extract_content_from_urls md_disk_full_world two_results
        (Str (asc ''351'')) no_state))
     (content_dir, fmt (Str (asc ''351'')) @ asc ''_'' @ str_of_nat (0 + 1) @ asc ''.md'')
     = Some Truncated"
    by (simp add: md_disk_full_world_def)
  have p3: "jina_get unclean_world 0
        (asc ''https://r.jina.ai/'' @ link (organic_results two_results ! 0)) = Inr ?jr
      \<and> status_code ?jr = 200
      \<and> clean_content unclean_world (resp_text ?jr)
          = Inl (Exn ''TypeError'' (asc ''expected string or bytes-like object''))"
  proof (intro conjI)
    show "jina_get unclean_world 0
        (asc ''https://r.jina.ai/'' @ link (organic_results two_results ! 0)) = Inr ?jr"
      by (simp add: unclean_world_def answered_world_def quiet_world_def)
    show "status_code ?jr = 200" by simp
    show "clean_content unclean_world (resp_text ?jr)
          = Inl (Exn ''TypeError'' (asc ''expected string or bytes-like object''))"
      by (simp add: unclean_world_clean)
  qed
  have d: "files (snd (extract_content_from_urls unclean_world two_results (Str (asc ''351''))
        no_state))
     (content_dir, fmt (Str (asc ''351'')) @ asc ''_'' @ str_of_nat (0 + 1) @ asc ''.md'')
     = files no_state
         (content_dir, fmt (Str (asc ''351'')) @ asc ''_'' @ str_of_nat (0 + 1) @ asc ''.md'')"
    by (rule raw_text_is_saved_on_success [OF refl n0 refl refl refl refl,
          THEN conjunct2, THEN conjunct2, THEN conjunct2, THEN conjunct1, THEN mp,
          THEN conjunct2, OF p3])
  let ?other = "py_join (asc ''\<newline>'')
      (filter (\<lambda>t. t \<noteq> []) [asc ''Farmers protested.'', [], asc ''They rallied.''])"
  let ?jr500 = "\<lparr>status_code = 500, resp_text = asc ''upstream error'',
                 resp_json = Inl (Exn ''JSONDecodeError'' (asc ''Expecting value''))\<rparr>"
  have p4: "(jina_get fallback_world 0
          (asc ''https://r.jina.ai/'' @ link (organic_results two_results ! 0))
          = Inl (Exn ''Timeout'' (asc ''read timed out''))
        \<or> (jina_get fallback_world 0
              (asc ''https://r.jina.ai/'' @ link (organic_results two_results ! 0)) = Inr ?jr500
            \<and> status_code ?jr500 \<noteq> 200))
      \<and> partition_url fallback_world 0 (link (organic_results two_results ! 0))
          = Inr [asc ''Farmers protested.'', [], asc ''They rallied.'']
      \<and> ?other = ?other
      \<and> clean_content fallback_world ?other
          = Inr (asc ''Farmers protested.'' @ asc ''\<newline>'' @ asc ''They rallied.'')
      \<and> write_md fallback_world
          (content_dir, fmt (Str (asc ''351'')) @ asc ''_'' @ str_of_nat (0 + 1) @ asc ''.md'')
          ?other = None"
  proof (intro conjI)
    show "jina_get fallback_world 0
          (asc ''https://r.jina.ai/'' @ link (organic_results two_results ! 0))
          = Inl (Exn ''Timeout'' (asc ''read timed out''))
        \<or> (jina_get fallback_world 0
              (asc ''https://r.jina.ai/'' @ link (organic_results two_results ! 0)) = Inr ?jr500
            \<and> status_code ?jr500 \<noteq> 200)"
      by (simp add: fallback_world_def jina_500_world_def quiet_world_def)
    show "partition_url fallback_world 0 (link (organic_results two_results ! 0))
          = Inr [asc ''Farmers protested.'', [], asc ''They rallied.'']"
      by (simp add: fallback_world_def)
    show "?other = ?other" by (rule refl)
    have o: "?other = asc ''Farmers protested.'' @ asc ''\<newline>'' @ asc ''They rallied.''"
      by (simp add: asc_def)
    show "clean_content fallback_world ?other
          = Inr (asc ''Farmers protested.'' @ asc ''\<newline>'' @ asc ''They rallied.'')"
      unfolding o by (rule fallback_world_clean)
    show "write_md fallback_world
          (content_dir, fmt (Str (asc ''351'')) @ asc ''_'' @ str_of_nat (0 + 1) @ asc ''.md'')
          ?other = None"
      by (simp add: fallback_world_def jina_500_world_def quiet_world_def)
  qed
  have e: "files (snd (extract_content_from_urls fallback_world two_results (Str (asc ''351''))
        no_state))
     (content_dir, fmt (Str (asc ''351'')) @ asc ''_'' @ str_of_nat (0 + 1) @ asc ''.md'')
     = Some (MdText ?other)"
    by (rule raw_text_is_saved_on_success [OF refl n0 refl refl refl refl,
          THEN conjunct2, THEN conjunct2, THEN conjunct2, THEN conjunct2, THEN mp,
          THEN conjunct2, OF p4])
  from a b c d e show ?thesis by (intro conjI)
qed

subsection \<open>Query synthesis\<close>










subsection \<open>Selecting the JSON text of a reply\<close>

lemma first_occurrence_Some:
  "first_occurrence sub s = Some i \<Longrightarrow>
   i \<le> length s \<and> take (length sub) (drop i s) = sub
   \<and> (\<forall>j<i. take (length sub) (drop j s) \<noteq> sub)"
proof (induction s arbitrary: i)
  case Nil
  then show ?case by (simp split: if_splits)
next
  case (Cons c cs)
  show ?case
  proof (cases "take (length sub) (c # cs) = sub")
    case True
    with Cons.prems show ?thesis by simp
  next
    case False
    with Cons.prems obtain k where k: "first_occurrence sub cs = Some k" "i = Suc k"
      by auto
    from Cons.IH [OF k(1)] have ih: "k \<le> length cs" "take (length sub) (drop k cs) = sub"
      "\<forall>j<k. take (length sub) (drop j cs) \<noteq> sub" by simp_all
    have "take (length sub) (drop j (c # cs)) \<noteq> sub" if "j < Suc k" for j
    proof (cases j)
      case 0
      with False show ?thesis by simp
    next
      case (Suc j')
      with that ih(3) show ?thesis by simp
    qed
    with ih k show ?thesis by simp
  qed
qed

lemma first_occurrence_at:
  "i \<le> length s \<Longrightarrow> take (length sub) (drop i s) = sub \<Longrightarrow>
   (\<forall>j<i. take (length sub) (drop j s) \<noteq> sub) \<Longrightarrow> first_occurrence sub s = Some i"
proof (induction s arbitrary: i)
  case Nil
  then show ?case by auto
next
  case (Cons c cs)
  show ?case
  proof (cases i)
    case 0
    with Cons.prems show ?thesis by simp
  next
    case (Suc k)
    from Cons.prems(3) Suc have no0: "take (length sub) (c # cs) \<noteq> sub"
      by (metis drop0 zero_less_Suc)
    have "first_occurrence sub cs = Some k"
    proof (rule Cons.IH)
      show "k \<le> length cs" using Cons.prems(1) Suc by simp
      show "take (length sub) (drop k cs) = sub" using Cons.prems(2) Suc by simp
      show "\<forall>j<k. take (length sub) (drop j cs) \<noteq> sub"
      proof (intro allI impI)
        fix j assume "j < k"
        then have "Suc j < i" using Suc by simp
        with Cons.prems(3) have "take (length sub) (drop (Suc j) (c # cs)) \<noteq> sub" by blast
        then show "take (length sub) (drop j cs) \<noteq> sub" by simp
      qed
    qed
    with no0 Suc show ?thesis by simp
  qed
qed

lemma take_drop_append_left:
  "j + n \<le> length x \<Longrightarrow> take n (drop j (x @ y)) = take n (drop j x)"
  by simp

lemma first_occurrence_extend:
  assumes "first_occurrence sub (a @ sub) = Some (length a)"
  shows "first_occurrence sub (a @ sub @ b) = Some (length a)"
proof (rule first_occurrence_at)
  show "length a \<le> length (a @ sub @ b)" by simp
  show "take (length sub) (drop (length a) (a @ sub @ b)) = sub" by simp
  show "\<forall>j<length a. take (length sub) (drop j (a @ sub @ b)) \<noteq> sub"
  proof (intro allI impI)
    fix j assume j: "j < length a"
    from first_occurrence_Some [OF assms] j
    have "take (length sub) (drop j (a @ sub)) \<noteq> sub" by blast
    moreover have "take (length sub) (drop j ((a @ sub) @ b)) = take (length sub) (drop j (a @ sub))"
      by (rule take_drop_append_left) (use j in simp)
    ultimately show "take (length sub) (drop j (a @ sub @ b)) \<noteq> sub"
      by (metis append_assoc)
  qed
qed

lemma fenced_slice:
  assumes "first_occurrence op (pre @ op) = Some (length pre)"
    and "first_occurrence cl (body @ cl) = Some (length body)"
    and "s = pre @ op @ body @ cl @ post"
  shows "py_in op s"
    and "py_find s op + int (length op) = int (length pre + length op)"
    and "py_find_from s cl (int (length pre + length op))
           = int (length pre + length op + length body)"
    and "py_slice s (int (length pre + length op)) (int (length pre + length op + length body))
           = body"
proof -
  have o: "first_occurrence op s = Some (length pre)"
    using first_occurrence_extend [OF assms(1), of "body @ cl @ post"] assms(3) by simp
  show "py_in op s" using o by (simp add: py_in_def)
  show "py_find s op + int (length op) = int (length pre + length op)"
    using o by (simp add: py_find_def)
  have d: "drop (length pre + length op) s = body @ cl @ post"
    using assms(3) by simp
  have c: "first_occurrence cl (body @ cl @ post) = Some (length body)"
    using first_occurrence_extend [OF assms(2), of post] by simp
  have len: "length pre + length op + length body \<le> length s"
    using assms(3) by simp
  have k: "clamp_index (length s) (int (length pre + length op)) = length pre + length op"
    using len by (simp add: clamp_index_def)
  have nl: "\<not> int (length s) < int (length pre + length op)"
    using len by simp
  show "py_find_from s cl (int (length pre + length op))
           = int (length pre + length op + length body)"
    unfolding py_find_from_def Let_def k d c using nl by simp
  have k2: "clamp_index (length s) (int (length pre + length op + length body))
      = length pre + length op + length body"
    using len by (simp add: clamp_index_def)
  show "py_slice s (int (length pre + length op)) (int (length pre + length op + length body))
           = body"
    unfolding py_slice_def Let_def k k2 d by simp
qed

lemma first_occurrence_char:
  "c \<notin> set a \<Longrightarrow> first_occurrence [c] (a @ c # r) = Some (length a)"
  by (induction a) auto

lemma py_in_char: "py_in [c] s \<longleftrightarrow> c \<in> set s"
proof
  assume "py_in [c] s"
  then obtain i where "first_occurrence [c] s = Some i" by (auto simp: py_in_def)
  from first_occurrence_Some [OF this] have "take 1 (drop i s) = [c]" by simp
  then have "c \<in> set (take 1 (drop i s))" by simp
  then show "c \<in> set s" by (meson in_set_dropD in_set_takeD)
next
  assume "c \<in> set s"
  then obtain a r where "s = a @ c # r" "c \<notin> set a"
    by (meson split_list_first)
  then show "py_in [c] s" by (simp add: py_in_def first_occurrence_char)
qed

lemma braces_slice:
  assumes "s = a @ [l] @ m @ [r] @ z" and "l \<notin> set a" and "r \<notin> set z"
  shows "py_slice s (py_find s [l]) (py_rfind s [r] + 1) = [l] @ m @ [r]"
proof -
  have f: "first_occurrence [l] s = Some (length a)"
    using assms(1,2) first_occurrence_char [of l a "m @ [r] @ z"] by simp
  have "rev s = rev z @ r # (rev m @ [l] @ rev a)" using assms(1) by simp
  then have "first_occurrence [r] (rev s) = Some (length (rev z))"
    using assms(3) first_occurrence_char [of r "rev z" "rev m @ [l] @ rev a"] by simp
  then have l: "last_occurrence [r] s = Some (length s - 1 - length z)"
    by (simp add: last_occurrence_def)
  have len: "length s = length a + length m + length z + 2" using assms(1) by simp
  have lo: "clamp_index (length s) (py_find s [l]) = length a"
    using f len by (simp add: py_find_def clamp_index_def)
  have "py_rfind s [r] + 1 = int (length a + length m + 2)"
    using l len by (simp add: py_rfind_def)
  then have hi: "clamp_index (length s) (py_rfind s [r] + 1) = length a + length m + 2"
    using len by (simp add: clamp_index_def)
  have d: "drop (length a) s = ([l] @ m @ [r]) @ z"
    using assms(1) by simp
  have "take (length a + length m + 2 - length a) (([l] @ m @ [r]) @ z) = [l] @ m @ [r]"
    by simp
  then show ?thesis
    unfolding py_slice_def Let_def lo hi d .
qed

lemma py_strip_unchanged:
  assumes "s \<noteq> []" and "\<not> py_isspace (hd s)" and "\<not> py_isspace (last s)"
  shows "py_strip s = s"
proof -
  have a: "dropWhile py_isspace s = s"
    using assms(1,2) by (cases s) simp_all
  have "rev s \<noteq> []" "\<not> py_isspace (hd (rev s))"
    using assms(1,3) by (simp_all add: hd_rev)
  then have "dropWhile py_isspace (rev s) = rev s"
    by (cases "rev s") simp_all
  with a show ?thesis by (simp add: py_strip_def)
qed

lemma extract_json_text_fenced:
  assumes "r = p @ asc ''```json'' @ b @ asc ''```'' @ q"
    and "first_occurrence (asc ''```json'') (p @ asc ''```json'') = Some (length p)"
    and "first_occurrence (asc ''```'') (b @ asc ''```'') = Some (length b)"
  shows "extract_json_text r manual = Inr (py_strip b)"
proof -
  note S = fenced_slice [OF assms(2) assms(3) assms(1)]
  have n: "int (length (asc ''```json'')) = 7" by (simp add: asc_def)
  have start: "py_find r (asc ''```json'') + 7 = int (length p + length (asc ''```json''))"
    using S(2) n by simp
  show ?thesis
    unfolding extract_json_text_def Let_def start
    using S(1) S(3) S(4) by simp
qed

lemma fenced_reply_parts:
  \<open>fenced_reply = [] @ asc ''```json'' @ asc ''\<newline>{"english_query": "a'' @ asc ''```''
     @ asc ''b", "bangla_query": "c"}\<newline>```''\<close>
  by (simp add: fenced_reply_def asc_def)

lemma fenced_reply_unchanged: "py_strip fenced_reply = fenced_reply"
  by (rule py_strip_unchanged) (simp_all add: fenced_reply_def asc_def py_isspace_def)

lemma fenced_reply_selected:
  \<open>extract_json_text (py_strip fenced_reply) manual = Inr (asc ''{"english_query": "a'')\<close>
proof -
  have o: "first_occurrence (asc ''```json'') ([] @ asc ''```json'') = Some (length ([] :: pystr))"
    by (simp add: asc_def)
  have c: \<open>first_occurrence (asc ''```'') (asc ''\<newline>{"english_query": "a'' @ asc ''```'')
      = Some (length (asc ''\<newline>{"english_query": "a''))\<close>
    by (simp add: asc_def)
  have st: \<open>py_strip (asc ''\<newline>{"english_query": "a'') = asc ''{"english_query": "a''\<close>
    by (simp add: py_strip_def py_isspace_def asc_def)
  from extract_json_text_fenced [OF fenced_reply_parts o c, of manual]
  show ?thesis
    by (simp only: fenced_reply_unchanged st)
qed

text \<open>
  What the selection does with an opening fence that is never closed: \<^verbatim>\<open>find\<close> returns
  -1, and the slice \<^verbatim>\<open>[json_start:-1]\<close> loses the last character of the reply.
\<close>

lemma unclosed_fence_loses_last_character:
  \<open>extract_json_text (asc ''```json{"a": 1}'') manual = Inr (asc ''{"a": 1'')\<close>
proof -
  have i: \<open>py_in (asc ''```json'') (asc ''```json{"a": 1}'')\<close>
    by (simp add: py_in_def asc_def)
  have f: \<open>py_find (asc ''```json{"a": 1}'') (asc ''```json'') = 0\<close>
    by (simp add: py_find_def asc_def)
  have e: \<open>py_find_from (asc ''```json{"a": 1}'') (asc ''```'') 7 = - 1\<close>
    by (simp add: py_find_from_def clamp_index_def asc_def)
  have sl: \<open>py_slice (asc ''```json{"a": 1}'') 7 (- 1) = asc ''{"a": 1''\<close>
    by (simp add: py_slice_def clamp_index_def asc_def)
  have st: \<open>py_strip (asc ''{"a": 1'') = asc ''{"a": 1''\<close>
    by (rule py_strip_unchanged) (simp_all add: asc_def py_isspace_def)
  show ?thesis
    by (simp add: extract_json_text_def i f e sl st)
qed

text \<open>
  C7, as the claim states it, fails: a reply that wraps a valid JSON object in a
  \<^verbatim>\<open>```json\<close> fence is not unwrapped when a string of the object holds three backticks.
  The text parsed stops at them, it is not the text between the fence markers, and
  \<open>generate_search_queries\<close> returns the fallback pair instead of the queries of the reply.
  And a reply that opens a fence and never closes it, so that it holds no fenced block, is
  not left to the second tier: the text parsed is not the text from the first \<^verbatim>\<open>{\<close>
  through the last \<^verbatim>\<open>}\<close>, it lacks the last character.
\<close>

theorem fence_inside_json_counterexample:
  \<open>extract_json_text (py_strip fenced_reply) (manual_queries_json sample_project)
     = Inr (asc ''{"english_query": "a'')
   \<and> extract_json_text (py_strip fenced_reply) (manual_queries_json sample_project)
     \<noteq> Inr (asc ''{"english_query": "a```b", "bangla_query": "c"}'')
   \<and> fst (generate_search_queries fenced_world sample_project no_state)
     = fallback_queries sample_project
   \<and> extract_json_text (asc ''```json{"a": 1}'') (Inr unparsed_json) = Inr (asc ''{"a": 1'')
   \<and> extract_json_text (asc ''```json{"a": 1}'') (Inr unparsed_json) \<noteq> Inr (asc ''{"a": 1}'')\<close>
proof -
  have a: \<open>extract_json_text (py_strip fenced_reply) (manual_queries_json sample_project)
     = Inr (asc ''{"english_query": "a'')\<close>
    by (rule fenced_reply_selected)
  have d: \<open>extract_json_text (asc ''```json{"a": 1}'') (Inr unparsed_json) = Inr (asc ''{"a": 1'')\<close>
    by (rule unclosed_fence_loses_last_character)
  have e: \<open>asc ''{"a": 1'' \<noteq> asc ''{"a": 1}''\<close>
    by (simp add: asc_def)
  have b: \<open>asc ''{"english_query": "a'' \<noteq> asc ''{"english_query": "a```b", "bangla_query": "c"}''\<close>
    by (simp add: asc_def)
  have "queries_attempt fenced_world sample_project (queries_prompt sample_project)
      = Inl (Exn ''JSONDecodeError'' (asc ''Unterminated string''))"
    using b by (simp add: queries_attempt_def fenced_world_def quiet_world_def a)
  then have c: "fst (generate_search_queries fenced_world sample_project no_state)
     = fallback_queries sample_project"
    by (simp add: generate_search_queries_def)
  from a b c d e show ?thesis by simp
qed

lemma py_strip_wrapped:
  "py_strip (asc ''\<newline>{'' @ m @ asc ''}\<newline>'') = asc ''{'' @ m @ asc ''}''"
  by (simp add: py_strip_def py_isspace_def asc_def)

text \<open>
  C7, amended: both parsers select the text to parse by the same precedence. If the
  reply contains the marker \<^verbatim>\<open>```json\<close> and a \<^verbatim>\<open>```\<close> after it, the text between the
  first \<^verbatim>\<open>```json\<close> and the first \<^verbatim>\<open>```\<close> after it, stripped, is selected; so a reply
  that wraps a JSON object in a fence is unwrapped when the object holds no three
  backticks. If the reply does not contain the marker \<^verbatim>\<open>```json\<close> and contains a \<^verbatim>\<open>{\<close>
  with a \<^verbatim>\<open>}\<close> after it, the text from the first \<^verbatim>\<open>{\<close> through the last \<^verbatim>\<open>}\<close> is
  selected. If the reply does not contain the marker \<^verbatim>\<open>```json\<close> and lacks \<^verbatim>\<open>{\<close> or
  \<^verbatim>\<open>}\<close>, the manual text is used. The selected text is what \<^verbatim>\<open>json.loads\<close> gets, in
  \<open>generate_search_queries\<close> and in \<open>analyze_opposition\<close>. (Nothing is stated of a
  reply that opens a \<^verbatim>\<open>```json\<close> fence and never closes it.)
\<close>

theorem json_text_selection:
  assumes "fence = asc ''```json''" and "ticks = asc ''```''"
  shows "(reply = pre @ fence @ body @ ticks @ post
          \<and> first_occurrence fence (pre @ fence) = Some (length pre)
          \<and> first_occurrence ticks (body @ ticks) = Some (length body)
          \<longrightarrow> extract_json_text reply manual = Inr (py_strip body))
    \<and> (first_occurrence ticks ((asc ''\<newline>{'' @ m @ asc ''}\<newline>'') @ ticks)
            = Some (length (asc ''\<newline>{'' @ m @ asc ''}\<newline>''))
          \<longrightarrow> extract_json_text (fence @ (asc ''\<newline>{'' @ m @ asc ''}\<newline>'') @ ticks) manual
                = Inr (asc ''{'' @ m @ asc ''}''))
    \<and> (\<not> py_in fence reply \<and> reply = a @ asc ''{'' @ m @ asc ''}'' @ z
          \<and> \<not> py_in (asc ''{'') a \<and> \<not> py_in (asc ''}'') z
          \<longrightarrow> extract_json_text reply manual = Inr (asc ''{'' @ m @ asc ''}''))
    \<and> (\<not> py_in fence reply \<and> \<not> (py_in (asc ''{'') reply \<and> py_in (asc ''}'') reply)
          \<longrightarrow> extract_json_text reply manual = manual)
    \<and> (generate_content w prompt = Inr (Some t)
          \<and> extract_json_text (py_strip t) (manual_queries_json project_data) = Inr json_text
          \<longrightarrow> queries_attempt w project_data prompt
                = (case json_loads w json_text of
                     Inl e \<Rightarrow> Inl e | Inr d \<Rightarrow> SearchQueries_init d))
    \<and> (generate_content w prompt = Inr (Some t)
          \<and> extract_json_text (py_strip t) (Inr unparsed_json) = Inr json_text
          \<longrightarrow> analysis_attempt w prompt
                = (case json_loads w json_text of
                     Inl e \<Rightarrow> Inl e | Inr d \<Rightarrow> validate_analysis w d))"
proof -
  have fenced: "extract_json_text r manual = Inr (py_strip b)"
    if "r = p @ fence @ b @ ticks @ q"
      and "first_occurrence fence (p @ fence) = Some (length p)"
      and "first_occurrence ticks (b @ ticks) = Some (length b)" for r p b q
    using that unfolding assms by (rule extract_json_text_fenced)
  have 1: "reply = pre @ fence @ body @ ticks @ post
          \<and> first_occurrence fence (pre @ fence) = Some (length pre)
          \<and> first_occurrence ticks (body @ ticks) = Some (length body)
          \<longrightarrow> extract_json_text reply manual = Inr (py_strip body)"
    using fenced by blast
  have f0: "first_occurrence fence ([] @ fence) = Some (length ([] :: pystr))"
    using assms(1) by (simp add: asc_def)
  have 2: "first_occurrence ticks ((asc ''\<newline>{'' @ m @ asc ''}\<newline>'') @ ticks)
            = Some (length (asc ''\<newline>{'' @ m @ asc ''}\<newline>''))
          \<longrightarrow> extract_json_text (fence @ (asc ''\<newline>{'' @ m @ asc ''}\<newline>'') @ ticks) manual
                = Inr (asc ''{'' @ m @ asc ''}'')"
  proof
    assume h: "first_occurrence ticks ((asc ''\<newline>{'' @ m @ asc ''}\<newline>'') @ ticks)
            = Some (length (asc ''\<newline>{'' @ m @ asc ''}\<newline>''))"
    have "extract_json_text ([] @ fence @ (asc ''\<newline>{'' @ m @ asc ''}\<newline>'') @ ticks @ []) manual
        = Inr (py_strip (asc ''\<newline>{'' @ m @ asc ''}\<newline>''))"
      using refl f0 h by (rule fenced)
    then show "extract_json_text (fence @ (asc ''\<newline>{'' @ m @ asc ''}\<newline>'') @ ticks) manual
        = Inr (asc ''{'' @ m @ asc ''}'')"
      by (simp add: py_strip_wrapped)
  qed
  have lb: "asc ''{'' = [123]" and rb: "asc ''}'' = [125]" by (simp_all add: asc_def)
  have 3: "\<not> py_in fence reply \<and> reply = a @ asc ''{'' @ m @ asc ''}'' @ z
          \<and> \<not> py_in (asc ''{'') a \<and> \<not> py_in (asc ''}'') z
          \<longrightarrow> extract_json_text reply manual = Inr (asc ''{'' @ m @ asc ''}'')"
  proof (intro impI, elim conjE)
    assume nf: "\<not> py_in fence reply" and r: "reply = a @ asc ''{'' @ m @ asc ''}'' @ z"
      and na: "\<not> py_in (asc ''{'') a" and nz: "\<not> py_in (asc ''}'') z"
    have r': "reply = a @ [123] @ m @ [125] @ z" using r lb rb by simp
    have "123 \<notin> set a" "125 \<notin> set z" using na nz by (simp_all add: lb rb py_in_char)
    from braces_slice [OF r' this]
    have sl: "py_slice reply (py_find reply [123]) (py_rfind reply [125] + 1) = [123] @ m @ [125]" .
    have "py_in [123] reply" "py_in [125] reply" using r' by (simp_all add: py_in_char)
    then show "extract_json_text reply manual = Inr (asc ''{'' @ m @ asc ''}'')"
      unfolding extract_json_text_def Let_def assms(1) [symmetric] lb rb
      using nf sl by simp
  qed
  have 4: "\<not> py_in fence reply \<and> \<not> (py_in (asc ''{'') reply \<and> py_in (asc ''}'') reply)
          \<longrightarrow> extract_json_text reply manual = manual"
    unfolding extract_json_text_def Let_def assms(1) [symmetric] by simp
  have 5: "generate_content w prompt = Inr (Some t)
          \<and> extract_json_text (py_strip t) (manual_queries_json project_data) = Inr json_text
          \<longrightarrow> queries_attempt w project_data prompt
                = (case json_loads w json_text of
                     Inl e \<Rightarrow> Inl e | Inr d \<Rightarrow> SearchQueries_init d)"
    by (simp add: queries_attempt_def)
  have 6: "generate_content w prompt = Inr (Some t)
          \<and> extract_json_text (py_strip t) (Inr unparsed_json) = Inr json_text
          \<longrightarrow> analysis_attempt w prompt
                = (case json_loads w json_text of
                     Inl e \<Rightarrow> Inl e | Inr d \<Rightarrow> validate_analysis w d)"
    by (simp add: analysis_attempt_def)
  from 1 2 3 4 5 6 show ?thesis by blast
qed

theorem json_text_selection_witness:
  \<open>extract_json_text
      (asc ''Here you go:\<newline>'' @ asc ''```json'' @ asc ''\<newline>{"a": 1}\<newline>'' @ asc ''```''
         @ asc ''\<newline>Done.'') (Inr unparsed_json)
     = Inr (py_strip (asc ''\<newline>{"a": 1}\<newline>''))
   \<and> extract_json_text
      (asc ''Sure: '' @ asc ''{'' @ asc ''"a": 1'' @ asc ''}'' @ asc '' ok'') (Inr unparsed_json)
     = Inr (asc ''{'' @ asc ''"a": 1'' @ asc ''}'')
   \<and> extract_json_text (asc ''no json here'') (Inr unparsed_json) = Inr unparsed_json\<close>
proof -
  note T = json_text_selection [OF refl refl]
  have o: "first_occurrence (asc ''```json'') (asc ''Here you go:\<newline>'' @ asc ''```json'')
      = Some (length (asc ''Here you go:\<newline>''))"
    by (simp add: asc_def)
  have c: \<open>first_occurrence (asc ''```'') (asc ''\<newline>{"a": 1}\<newline>'' @ asc ''```'')
      = Some (length (asc ''\<newline>{"a": 1}\<newline>''))\<close>
    by (simp add: asc_def)
  have a: \<open>extract_json_text
      (asc ''Here you go:\<newline>'' @ asc ''```json'' @ asc ''\<newline>{"a": 1}\<newline>'' @ asc ''```''
         @ asc ''\<newline>Done.'') (Inr unparsed_json)
     = Inr (py_strip (asc ''\<newline>{"a": 1}\<newline>''))\<close>
    by (rule T [THEN conjunct1, THEN mp]) (use o c in blast)
  have nf: \<open>\<not> py_in (asc ''```json'')
      (asc ''Sure: '' @ asc ''{'' @ asc ''"a": 1'' @ asc ''}'' @ asc '' ok'')\<close>
    by (simp add: py_in_def asc_def)
  have na: "\<not> py_in (asc ''{'') (asc ''Sure: '')" and nz: "\<not> py_in (asc ''}'') (asc '' ok'')"
    by (simp_all add: py_in_def asc_def)
  have b: \<open>extract_json_text
      (asc ''Sure: '' @ asc ''{'' @ asc ''"a": 1'' @ asc ''}'' @ asc '' ok'') (Inr unparsed_json)
     = Inr (asc ''{'' @ asc ''"a": 1'' @ asc ''}'')\<close>
    by (rule T [THEN conjunct2, THEN conjunct2, THEN conjunct1, THEN mp])
      (use nf na nz in blast)
  have n4: "\<not> py_in (asc ''```json'') (asc ''no json here'')"
    and n5: "\<not> py_in (asc ''{'') (asc ''no json here'')"
    by (simp_all add: py_in_def asc_def)
  have d: "extract_json_text (asc ''no json here'') (Inr unparsed_json) = Inr unparsed_json"
    by (rule T [THEN conjunct2, THEN conjunct2, THEN conjunct2, THEN conjunct1, THEN mp])
      (use n4 n5 in blast)
  from a b d show ?thesis by blast
qed

end
